theory Spec2Isabelle
  imports Complex_Main
begin

section \<open>The scoring engine of scripts/pr-metrics.mjs\<close>

text \<open>
  The script computes a maturity score for one pull request. This theory embeds its
  pure core: the business-hours clock, the threshold tables and their scorer, the
  weighted average, and the aggregation into complexity, M1..M4 and maturity.

  Numbers. The numbers of the script are modelled as exact reals: every table bound
  and every weight is the decimal literal of the source read as a rational, and \<open>+\<close>,
  \<open>*\<close>, \<open>/\<close> are exact. The claims are settled in this arithmetic. The arithmetic
  of the script itself is binary64, which rounds every result; it is modelled too, and
  used where a claim states the exact result of a computation: for claim C9, and for the
  exact values of claim C2. Instants (the time values of \<open>Date\<close> objects) and minutes
  of the day are integers, as they are in the script. The tallies the script obtains
  from the GitHub API (array lengths, counters) are naturals.

  Collaborators. The HTTP layer, the regular expressions and the report are outside
  this theory; what the script derives from them enters as the fields of \<open>pr_run\<close>.
  \<open>Intl.DateTimeFormat\<close>, behind \<open>toZonedParts\<close>, enters as the function \<open>tz\<close>
  from an instant to the local parts that \<open>businessMinutesBetween\<close> reads.
\<close>

subsection \<open>Business-hours clock (lines 85-185)\<close>

text \<open>The result of \<open>parseTimeHHMM\<close>: the two numbers of an \<open>HH:MM\<close> string.\<close>

record hhmm =
  hh :: int
  mm :: int

text \<open>
  The time of day and the short weekday name (\<open>Mon\<close>, \<open>Tue\<close>, ...) that
  \<open>toZonedParts\<close> returns. The clock reads the hour, the minute and the weekday; it
  does not read the second.
\<close>

record zoned_parts =
  hour :: int
  minute :: int
  second :: int
  weekday :: string

text \<open>
  The clock's surroundings: the zone's formatter and the three module constants
  \<open>workStart\<close>, \<open>workEnd\<close> and \<open>morningCutoff\<close> parsed from the environment.
\<close>

record clock =
  tz :: "int \<Rightarrow> zoned_parts"
  workStart :: hhmm
  workEnd :: hhmm
  morningCutoff :: hhmm

definition isWeekday :: "string \<Rightarrow> bool" where
  "isWeekday w = (w \<in> set [''Mon'', ''Tue'', ''Wed'', ''Thu'', ''Fri''])"

definition minutesSinceMidnight :: "int \<Rightarrow> int \<Rightarrow> int" where
  "minutesSinceMidnight h m = h * 60 + m"

definition clamp :: "int \<Rightarrow> int \<Rightarrow> int \<Rightarrow> int" where
  "clamp x a b = max a (min b x)"

text \<open>\<open>Math.round\<close>: the nearest integer, a tie going up.\<close>

definition Math_round :: "real \<Rightarrow> int" where
  "Math_round x = \<lfloor>x + 1 / 2\<rfloor>"

text \<open>
  The \<open>while (cur < endUtc)\<close> loop of \<open>businessMinutesBetween\<close> (lines 155-182), with
  the loop variables \<open>cur\<close> and \<open>total\<close> (here \<open>sumMin\<close>) as arguments. \<open>ws\<close>, \<open>we\<close>, \<open>cutoffMin\<close>
  and \<open>startInWork\<close> are the constants computed before the loop.
\<close>

function businessLoop ::
  "(int \<Rightarrow> zoned_parts) \<Rightarrow> int \<Rightarrow> int \<Rightarrow> int \<Rightarrow> bool \<Rightarrow> int \<Rightarrow> int \<Rightarrow> int \<Rightarrow> int"
where
  "businessLoop z ws we cutoffMin startInWork endUtc cur sumMin =
     (if cur < endUtc then
        (let p = z cur;
             next = min endUtc (cur + 60 * 60 * 1000);
             pNext = z next;
             sumMin' =
               (if isWeekday (weekday p) then
                  (let curMin = minutesSinceMidnight (hour p) (minute p);
                       nextMin = minutesSinceMidnight (hour pNext) (minute pNext);
                       effectiveStart = (if \<not> startInWork then max ws cutoffMin else ws);
                       a = clamp curMin effectiveStart we;
                       b = clamp nextMin effectiveStart we
                   in if b > a then sumMin + (b - a) else sumMin)
                else sumMin)
         in businessLoop z ws we cutoffMin startInWork endUtc next sumMin')
      else sumMin)"
  by pat_completeness auto
termination
  by (relation "measure (\<lambda>(z, ws, we, cutoffMin, startInWork, endUtc, cur, sumMin).
        nat (endUtc - cur))") auto

declare businessLoop.simps [simp del]

definition businessMinutesBetween :: "clock \<Rightarrow> int \<Rightarrow> int \<Rightarrow> int" where
  "businessMinutesBetween c startUtc endUtc =
     (if endUtc \<le> startUtc then 0
      else
        (let sp = tz c startUtc;
             ep = tz c endUtc;
             startMin = minutesSinceMidnight (hour sp) (minute sp);
             endMin = minutesSinceMidnight (hour ep) (minute ep);
             ws = minutesSinceMidnight (hh (workStart c)) (mm (workStart c));
             we = minutesSinceMidnight (hh (workEnd c)) (mm (workEnd c));
             cutoffMin = minutesSinceMidnight (hh (morningCutoff c)) (mm (morningCutoff c));
             startInWork = (isWeekday (weekday sp) \<and> startMin \<ge> ws \<and> startMin \<le> we);
             endBeforeCutoffSameOrNext = (endMin \<le> cutoffMin)
         in if \<not> startInWork \<and> endBeforeCutoffSameOrNext
            then Math_round (real_of_int (endUtc - startUtc) / 60000)
            else businessLoop (tz c) ws we cutoffMin startInWork endUtc startUtc 0))"

text \<open>
  A formatter for a zone with a constant offset from UTC (in minutes), such as the
  script's default zone America/Santo\_Domingo, four hours behind UTC all year. Instant
  0 is Thursday 1 January 1970, 00:00 UTC.
\<close>

definition fixedOffsetZone :: "int \<Rightarrow> int \<Rightarrow> zoned_parts" where
  "fixedOffsetZone offsetMin t =
     (let local = t + offsetMin * 60000;
          dayIndex = local div 86400000;
          msOfDay = local mod 86400000
      in \<lparr> hour = msOfDay div 3600000,
           minute = (msOfDay div 60000) mod 60,
           second = (msOfDay div 1000) mod 60,
           weekday = [''Thu'', ''Fri'', ''Sat'', ''Sun'', ''Mon'', ''Tue'', ''Wed'']
                       ! nat (dayIndex mod 7) \<rparr>)"

text \<open>The script's defaults: zone UTC-4, \<open>WORK_HOURS = 09:00-18:00\<close>, \<open>MORNING_CUTOFF = 07:30\<close>.\<close>

definition defaultClock :: clock where
  "defaultClock =
     \<lparr> tz = fixedOffsetZone (- 240),
       workStart = \<lparr> hh = 9, mm = 0 \<rparr>,
       workEnd = \<lparr> hh = 18, mm = 0 \<rparr>,
       morningCutoff = \<lparr> hh = 7, mm = 30 \<rparr> \<rparr>"

subsection \<open>Scoring helper and weighted average (lines 187-203)\<close>

text \<open>
  One entry \<open>{min, max, score}\<close> of a threshold table; a bound the entry leaves out
  (\<open>undefined\<close>) is \<open>None\<close>.
\<close>

record score_range =
  min_bound :: "real option"
  max_bound :: "real option"
  score :: real

fun scoreByThresholds :: "real \<Rightarrow> score_range list \<Rightarrow> real" where
  "scoreByThresholds v [] = 1"
| "scoreByThresholds v (t # ts) =
     (let okMin = (min_bound t = None \<or> v \<ge> the (min_bound t));
          okMax = (max_bound t = None \<or> v \<le> the (max_bound t))
      in if okMin \<and> okMax then score t else scoreByThresholds v ts)"

text \<open>One entry \<open>{score, weight}\<close> of the list given to \<open>weightedAvg\<close>.\<close>

record weighted_item =
  item_score :: real
  weight :: real

definition weightedAvg :: "weighted_item list \<Rightarrow> real" where
  "weightedAvg items =
     (let num = foldl (\<lambda>s it. s + item_score it * weight it) 0 items;
          den = foldl (\<lambda>s it. s + weight it) 0 items
      in if den \<noteq> 0 then num / den else 0)"

subsection \<open>The arithmetic of the script: binary64\<close>

text \<open>
  The numbers of the script are IEEE 754 binary64 values, and each \<open>+\<close>, \<open>*\<close> and
  \<open>/\<close> rounds its exact result to the nearest of them, a tie going to the even
  significand. A finite binary64 number is a significand times a power of two; the
  model keeps both as integers, and rounds to 53 significant bits. It leaves out the
  bounds of the exponent (overflow, subnormal numbers), the infinities, NaN and the sign
  of zero, so it is the script's arithmetic wherever the results stay in the normal
  range, as the scores and weights do.
\<close>

record b64 =
  mant :: int
  expo :: int

definition b64_val :: "b64 \<Rightarrow> real" where
  "b64_val x = real_of_int (mant x) * 2 powi expo x"

text \<open>The number of bits of a positive integer.\<close>

function bitLength :: "int \<Rightarrow> nat" where
  "bitLength n = (if n \<le> 0 then 0 else Suc (bitLength (n div 2)))"
  by pat_completeness auto
termination
  by (relation "measure nat") auto

declare bitLength.simps [simp del]

text \<open>\<open>m / 2 ^ k\<close> rounded to the nearest integer, a tie going to the even one.\<close>

definition roundHalfEven :: "int \<Rightarrow> nat \<Rightarrow> int" where
  "roundHalfEven m k =
     (let q = m div 2 ^ k; r = m mod 2 ^ k
      in if 2 * r < 2 ^ k then q
         else if 2 * r > 2 ^ k then q + 1
         else if even q then q else q + 1)"

text \<open>The binary64 number nearest to \<open>m * 2 ^ e\<close>: the significand keeps 53 bits.\<close>

definition b64_round :: "int \<Rightarrow> int \<Rightarrow> b64" where
  "b64_round m e =
     (let k = bitLength \<bar>m\<bar> - 53
      in \<lparr> mant = roundHalfEven m k, expo = e + int k \<rparr>)"

text \<open>Product and sum: the exact result, rounded.\<close>

definition b64_mul :: "b64 \<Rightarrow> b64 \<Rightarrow> b64" where
  "b64_mul x y = b64_round (mant x * mant y) (expo x + expo y)"

definition b64_add :: "b64 \<Rightarrow> b64 \<Rightarrow> b64" where
  "b64_add x y =
     (let e = min (expo x) (expo y)
      in b64_round (mant x * 2 ^ nat (expo x - e) + mant y * 2 ^ nat (expo y - e)) e)"

text \<open>
  Quotient, for a divisor other than zero: the integer quotient \<open>q\<close> of the significands,
  scaled to at least 55 bits, and, when the division leaves a remainder, a last bit 1
  that keeps the exact quotient strictly between \<open>q\<close> and \<open>q + 1\<close> for the rounding.
  \<open>weightedAvg\<close> divides only by a \<open>den\<close> that is not zero.
\<close>

definition b64_div :: "b64 \<Rightarrow> b64 \<Rightarrow> b64" where
  "b64_div x y =
     (let a = mant x * sgn (mant y);
          b = \<bar>mant y\<bar>;
          s = 55 + bitLength b;
          q = (a * 2 ^ s) div b;
          r = (a * 2 ^ s) mod b
      in if r = 0 then b64_round q (expo x - expo y - int s)
         else b64_round (2 * q + 1) (expo x - expo y - int s - 1))"

text \<open>An integer, and a decimal literal \<open>p / q\<close>, as the nearest binary64 number.\<close>

definition b64_of_int :: "int \<Rightarrow> b64" where
  "b64_of_int n = b64_round n 0"

definition b64_literal :: "int \<Rightarrow> int \<Rightarrow> b64" where
  "b64_literal p q = b64_div \<lparr> mant = p, expo = 0 \<rparr> \<lparr> mant = q, expo = 0 \<rparr>"

text \<open>\<open>weightedAvg\<close> (lines 199-203) in this arithmetic.\<close>

record weighted_item_b64 =
  item_score_b64 :: b64
  weight_b64 :: b64

definition weightedAvg_b64 :: "weighted_item_b64 list \<Rightarrow> b64" where
  "weightedAvg_b64 items =
     (let num = foldl (\<lambda>s it. b64_add s (b64_mul (item_score_b64 it) (weight_b64 it)))
                  (b64_of_int 0) items;
          den = foldl (\<lambda>s it. b64_add s (weight_b64 it)) (b64_of_int 0) items
      in if mant den \<noteq> 0 then b64_div num den else b64_of_int 0)"

subsection \<open>Threshold tables (lines 205-334)\<close>

definition thresholdsCommitsCount :: "score_range list" where
  "thresholdsCommitsCount =
     [\<lparr> min_bound = Some 8, max_bound = None, score = 1 \<rparr>,
      \<lparr> min_bound = Some 6, max_bound = Some 7, score = 2 \<rparr>,
      \<lparr> min_bound = Some 5, max_bound = Some 5, score = 3 \<rparr>,
      \<lparr> min_bound = Some 3, max_bound = Some 4, score = 4 \<rparr>,
      \<lparr> min_bound = Some 1, max_bound = Some 2, score = 5 \<rparr>]"

definition thresholdsAvgFilesPerCommit :: "bool \<Rightarrow> score_range list" where
  "thresholdsAvgFilesPerCommit legacy =
     (if \<not> legacy then
        [\<lparr> min_bound = Some 40, max_bound = None, score = 1 \<rparr>,
         \<lparr> min_bound = Some 30, max_bound = Some 39.999, score = 2 \<rparr>,
         \<lparr> min_bound = Some 20, max_bound = Some 29.999, score = 3 \<rparr>,
         \<lparr> min_bound = Some 15, max_bound = Some 19.999, score = 4 \<rparr>,
         \<lparr> min_bound = None, max_bound = Some 14.999, score = 5 \<rparr>]
      else
        [\<lparr> min_bound = Some 60, max_bound = None, score = 1 \<rparr>,
         \<lparr> min_bound = Some 50, max_bound = Some 59.999, score = 2 \<rparr>,
         \<lparr> min_bound = Some 40, max_bound = Some 49.999, score = 3 \<rparr>,
         \<lparr> min_bound = Some 35, max_bound = Some 39.999, score = 4 \<rparr>,
         \<lparr> min_bound = None, max_bound = Some 34.999, score = 5 \<rparr>])"

definition thresholdsAvgLinesPerCommit :: "bool \<Rightarrow> score_range list" where
  "thresholdsAvgLinesPerCommit legacy =
     (if \<not> legacy then
        [\<lparr> min_bound = Some 350, max_bound = None, score = 1 \<rparr>,
         \<lparr> min_bound = Some 250, max_bound = Some 349.999, score = 2 \<rparr>,
         \<lparr> min_bound = Some 150, max_bound = Some 249.999, score = 3 \<rparr>,
         \<lparr> min_bound = Some 100, max_bound = Some 149.999, score = 4 \<rparr>,
         \<lparr> min_bound = None, max_bound = Some 99.999, score = 5 \<rparr>]
      else
        [\<lparr> min_bound = Some 400, max_bound = None, score = 1 \<rparr>,
         \<lparr> min_bound = Some 300, max_bound = Some 399.999, score = 2 \<rparr>,
         \<lparr> min_bound = Some 200, max_bound = Some 299.999, score = 3 \<rparr>,
         \<lparr> min_bound = Some 150, max_bound = Some 199.999, score = 4 \<rparr>,
         \<lparr> min_bound = None, max_bound = Some 149.999, score = 5 \<rparr>])"

definition thresholdsLinesModified :: "bool \<Rightarrow> score_range list" where
  "thresholdsLinesModified legacy =
     (if \<not> legacy then
        [\<lparr> min_bound = Some 1200.0001, max_bound = None, score = 1 \<rparr>,
         \<lparr> min_bound = Some 500.0001, max_bound = Some 1200, score = 2 \<rparr>,
         \<lparr> min_bound = Some 300.0001, max_bound = Some 500, score = 3 \<rparr>,
         \<lparr> min_bound = Some 50.0001, max_bound = Some 300, score = 4 \<rparr>,
         \<lparr> min_bound = None, max_bound = Some 50, score = 5 \<rparr>]
      else
        [\<lparr> min_bound = Some 1200.0001, max_bound = None, score = 1 \<rparr>,
         \<lparr> min_bound = Some 700.0001, max_bound = Some 1200, score = 2 \<rparr>,
         \<lparr> min_bound = Some 500.0001, max_bound = Some 700, score = 3 \<rparr>,
         \<lparr> min_bound = Some 100.0001, max_bound = Some 500, score = 4 \<rparr>,
         \<lparr> min_bound = None, max_bound = Some 100, score = 5 \<rparr>])"

definition thresholdsCloseTimeHours :: "real \<Rightarrow> score_range list" where
  "thresholdsCloseTimeHours complexity =
     (let complex = (complexity > 3)
      in if complex then
        [\<lparr> min_bound = Some 32.0001, max_bound = None, score = 1 \<rparr>,
         \<lparr> min_bound = Some 20.0001, max_bound = Some 32, score = 2 \<rparr>,
         \<lparr> min_bound = Some 8.0001, max_bound = Some 20, score = 3 \<rparr>,
         \<lparr> min_bound = Some 4.0001, max_bound = Some 8, score = 4 \<rparr>,
         \<lparr> min_bound = None, max_bound = Some 4, score = 5 \<rparr>]
      else
        [\<lparr> min_bound = Some 32.0001, max_bound = None, score = 1 \<rparr>,
         \<lparr> min_bound = None, max_bound = Some 0.5, score = 1 \<rparr>,
         \<lparr> min_bound = Some 20.0001, max_bound = Some 32, score = 2 \<rparr>,
         \<lparr> min_bound = Some 0.5001, max_bound = Some 1, score = 2 \<rparr>,
         \<lparr> min_bound = Some 8.0001, max_bound = Some 20, score = 3 \<rparr>,
         \<lparr> min_bound = Some 4.0001, max_bound = Some 8, score = 4 \<rparr>,
         \<lparr> min_bound = None, max_bound = Some 4, score = 5 \<rparr>])"

definition thresholdsObservations :: "real \<Rightarrow> score_range list" where
  "thresholdsObservations complexity =
     (if complexity \<ge> 1 \<and> complexity < 3 then
        [\<lparr> min_bound = None, max_bound = Some 0, score = 1 \<rparr>,
         \<lparr> min_bound = Some 1, max_bound = Some 1, score = 2 \<rparr>,
         \<lparr> min_bound = Some 2, max_bound = Some 5, score = 3 \<rparr>,
         \<lparr> min_bound = Some 6, max_bound = Some 10, score = 4 \<rparr>,
         \<lparr> min_bound = Some 11, max_bound = None, score = 5 \<rparr>]
      else if complexity \<ge> 3 \<and> complexity < 4 then
        [\<lparr> min_bound = None, max_bound = Some 0, score = 2 \<rparr>,
         \<lparr> min_bound = Some 1, max_bound = Some 2, score = 3 \<rparr>,
         \<lparr> min_bound = Some 3, max_bound = None, score = 4 \<rparr>]
      else if complexity \<ge> 4 \<and> complexity < 5 then
        [\<lparr> min_bound = None, max_bound = Some 0, score = 3 \<rparr>,
         \<lparr> min_bound = Some 1, max_bound = None, score = 4 \<rparr>,
         \<lparr> min_bound = Some 2, max_bound = None, score = 5 \<rparr>]
      else
        [\<lparr> min_bound = None, max_bound = Some 0, score = 4 \<rparr>,
         \<lparr> min_bound = Some 1, max_bound = None, score = 5 \<rparr>])"

subsection \<open>One run of the script (lines 336-556)\<close>

text \<open>
  What one run reads from its environment and from the GitHub API, after the tallying
  of lines 405-457: the two mode flags, the clock, the pull request's summary
  (\<open>pr.state\<close>, whether \<open>pr.merged_at\<close> is set, \<open>pr.created_at\<close> and \<open>pr.closed_at\<close>
  as instants, \<open>pr.additions\<close>, \<open>pr.deletions\<close>), whether the head branch matches
  \<open>BRANCH_REGEX\<close>, the counters of the commit loop, the number of distinct approvers,
  the numbers of comments and of resolved threads, and the two readings of the system
  clock: \<open>new Date()\<close> of line 496 and \<open>Date.now()\<close> of line 554.
\<close>

record pr_run =
  isLegacy :: bool
  isFunctional :: bool
  clk :: clock
  pr_state :: string
  isMerged :: bool
  createdAt :: int
  pr_closed_at :: "int option"
  pr_additions :: nat
  pr_deletions :: nat
  branchOk :: bool
  totalCommits :: nat
  commitsStandardOk :: nat
  sumFiles :: nat
  sumLines :: nat
  countForAverages :: nat
  approvalsCount :: nat
  issueComments :: nat
  reviewComments :: nat
  resolvedThreads :: nat
  newDate :: int
  Date_now :: int

definition linesModified :: "pr_run \<Rightarrow> real" where
  "linesModified r = real (pr_additions r) + real (pr_deletions r)"

definition isClosed :: "pr_run \<Rightarrow> bool" where
  "isClosed r = (pr_state r = ''closed'')"

definition declinedThisPr :: "pr_run \<Rightarrow> real" where
  "declinedThisPr r = (if isClosed r \<and> \<not> isMerged r then 1 else 0)"

definition avgFilesPerCommit :: "pr_run \<Rightarrow> real" where
  "avgFilesPerCommit r =
     (if countForAverages r \<noteq> 0 then real (sumFiles r) / real (countForAverages r) else 0)"

definition avgLinesPerCommit :: "pr_run \<Rightarrow> real" where
  "avgLinesPerCommit r =
     (if countForAverages r \<noteq> 0 then real (sumLines r) / real (countForAverages r) else 0)"

definition commitStandardPct :: "pr_run \<Rightarrow> real" where
  "commitStandardPct r =
     (if totalCommits r \<noteq> 0 then real (commitsStandardOk r) / real (totalCommits r) else 0)"

definition s_commitsCount :: "pr_run \<Rightarrow> real" where
  "s_commitsCount r = scoreByThresholds (real (totalCommits r)) thresholdsCommitsCount"

definition s_avgFiles :: "pr_run \<Rightarrow> real" where
  "s_avgFiles r =
     scoreByThresholds (avgFilesPerCommit r) (thresholdsAvgFilesPerCommit (isLegacy r))"

definition s_avgLines :: "pr_run \<Rightarrow> real" where
  "s_avgLines r =
     scoreByThresholds (avgLinesPerCommit r) (thresholdsAvgLinesPerCommit (isLegacy r))"

definition s_commitStandard :: "pr_run \<Rightarrow> real" where
  "s_commitStandard r =
     (if commitStandardPct r \<ge> 0.9 then 5
      else if commitStandardPct r \<ge> 0.75 then 4
      else if commitStandardPct r \<ge> 0.6 then 3
      else if commitStandardPct r \<ge> 0.4 then 2 else 1)"

definition s_linesModified :: "pr_run \<Rightarrow> real" where
  "s_linesModified r =
     scoreByThresholds (linesModified r) (thresholdsLinesModified (isLegacy r))"

definition complexity :: "pr_run \<Rightarrow> real" where
  "complexity r =
     (if \<not> isFunctional r then 5
      else
        (let comp = weightedAvg
               [\<lparr> item_score = s_commitsCount r, weight = 0.20 \<rparr>,
                \<lparr> item_score = s_avgFiles r, weight = 0.25 \<rparr>,
                \<lparr> item_score = s_avgLines r, weight = 0.25 \<rparr>,
                \<lparr> item_score = s_linesModified r, weight = 0.30 \<rparr>]
         in min 5 (max 1 (real_of_int (Math_round comp)))))"

definition closedAt :: "pr_run \<Rightarrow> int" where
  "closedAt r = (case pr_closed_at r of Some t \<Rightarrow> t | None \<Rightarrow> newDate r)"

definition businessMins :: "pr_run \<Rightarrow> int" where
  "businessMins r = businessMinutesBetween (clk r) (createdAt r) (closedAt r)"

definition closeHours :: "pr_run \<Rightarrow> real" where
  "closeHours r = real_of_int (businessMins r) / 60"

definition s_closeTime :: "pr_run \<Rightarrow> real" where
  "s_closeTime r = scoreByThresholds (closeHours r) (thresholdsCloseTimeHours (complexity r))"

definition totalComments :: "pr_run \<Rightarrow> nat" where
  "totalComments r = issueComments r + reviewComments r"

definition observations :: "pr_run \<Rightarrow> nat" where
  "observations r = totalComments r + resolvedThreads r"

definition s_observations :: "pr_run \<Rightarrow> real" where
  "s_observations r =
     scoreByThresholds (real (observations r)) (thresholdsObservations (complexity r))"

definition s_approvals :: "pr_run \<Rightarrow> real" where
  "s_approvals r =
     (if approvalsCount r > 2 then 5
      else if approvalsCount r = 2 then 4
      else if approvalsCount r = 1 then 3
      else if approvalsCount r = 0 then 2 else 1)"

definition s_declined :: "pr_run \<Rightarrow> real" where
  "s_declined r = (if declinedThisPr r = 0 then 5 else 3)"

definition s_branch :: "pr_run \<Rightarrow> real" where
  "s_branch r = (if branchOk r then 5 else 2)"

definition M1 :: "pr_run \<Rightarrow> real" where
  "M1 r = weightedAvg
     [\<lparr> item_score = s_commitsCount r, weight = 0.30 \<rparr>,
      \<lparr> item_score = s_avgFiles r, weight = 0.20 \<rparr>,
      \<lparr> item_score = s_avgLines r, weight = 0.20 \<rparr>,
      \<lparr> item_score = s_commitStandard r, weight = 0.30 \<rparr>]"

definition M2 :: "pr_run \<Rightarrow> real" where
  "M2 r = weightedAvg
     [\<lparr> item_score = s_approvals r, weight = 0.50 \<rparr>,
      \<lparr> item_score = s_declined r, weight = 0.20 \<rparr>,
      \<lparr> item_score = s_branch r, weight = 0.30 \<rparr>]"

definition M3 :: "pr_run \<Rightarrow> real" where
  "M3 r = weightedAvg
     [\<lparr> item_score = s_closeTime r, weight = 0.75 \<rparr>,
      \<lparr> item_score = s_linesModified r, weight = 0.25 \<rparr>]"

definition M4 :: "pr_run \<Rightarrow> real" where
  "M4 r = weightedAvg [\<lparr> item_score = s_observations r, weight = 1.00 \<rparr>]"

definition ageDays :: "pr_run \<Rightarrow> real" where
  "ageDays r = real_of_int (Date_now r - createdAt r) / (1000 * 60 * 60 * 24)"

definition m5Penalty :: "pr_run \<Rightarrow> real" where
  "m5Penalty r = (if pr_state r = ''open'' \<and> ageDays r > 7 then 0.5 else 0)"

definition maturity :: "pr_run \<Rightarrow> real" where
  "maturity r =
     (M1 r * 0.25) + (M2 r * 0.15) + (M3 r * 0.35) + (M4 r * 0.25) - m5Penalty r"

text \<open>The expression of lines 548-556 in binary64: the categories, weighted, less the penalty.\<close>

definition b64_sub :: "b64 \<Rightarrow> b64 \<Rightarrow> b64" where
  "b64_sub x y = b64_add x \<lparr> mant = - mant y, expo = expo y \<rparr>"

definition maturity_b64 :: "b64 \<Rightarrow> b64 \<Rightarrow> b64 \<Rightarrow> b64 \<Rightarrow> b64 \<Rightarrow> b64" where
  "maturity_b64 m1 m2 m3 m4 penalty =
     b64_sub
       (b64_add
          (b64_add
             (b64_add (b64_mul m1 (b64_literal 25 100)) (b64_mul m2 (b64_literal 15 100)))
             (b64_mul m3 (b64_literal 35 100)))
          (b64_mul m4 (b64_literal 25 100)))
       penalty"

subsection \<open>Notions of the specification\<close>

text \<open>
  A range admits a value when its minimum, if it has one, is at most the value and its
  maximum, if it has one, is at least the value: inclusive bounds, open-ended where a
  bound is left out.
\<close>

definition admits :: "score_range \<Rightarrow> real \<Rightarrow> bool" where
  "admits t v =
     ((case min_bound t of None \<Rightarrow> True | Some lo \<Rightarrow> lo \<le> v) \<and>
      (case max_bound t of None \<Rightarrow> True | Some hi \<Rightarrow> v \<le> hi))"

text \<open>The integer scores 1 to 5.\<close>

definition scores15 :: "real set" where
  "scores15 = {1, 2, 3, 4, 5}"

text \<open>
  The local time of day of an instant in minutes since midnight, read to the minute as
  the script reads it: the seconds are dropped.
\<close>

definition minuteOfDay :: "clock \<Rightarrow> int \<Rightarrow> int" where
  "minuteOfDay c t = hour (tz c t) * 60 + minute (tz c t)"

text \<open>The work-start, work-end and cutoff minutes of the day.\<close>

definition workStartMinute :: "clock \<Rightarrow> int" where
  "workStartMinute c = hh (workStart c) * 60 + mm (workStart c)"

definition workEndMinute :: "clock \<Rightarrow> int" where
  "workEndMinute c = hh (workEnd c) * 60 + mm (workEnd c)"

definition cutoffMinute :: "clock \<Rightarrow> int" where
  "cutoffMinute c = hh (morningCutoff c) * 60 + mm (morningCutoff c)"

text \<open>An instant is on a work day when its local weekday is Monday to Friday.\<close>

definition onWorkDay :: "clock \<Rightarrow> int \<Rightarrow> bool" where
  "onWorkDay c t = (weekday (tz c t) \<in> {''Mon'', ''Tue'', ''Wed'', ''Thu'', ''Fri''})"

text \<open>
  Read to the minute, an instant falls outside the work window when it is on a non-work
  day, or on a work day but its minute of the day is before the work-start minute or
  after the work-end minute.
\<close>

definition outsideWorkWindow :: "clock \<Rightarrow> int \<Rightarrow> bool" where
  "outsideWorkWindow c t =
     (\<not> onWorkDay c t \<or>
      (onWorkDay c t \<and> (minuteOfDay c t < workStartMinute c \<or> workEndMinute c < minuteOfDay c t)))"

text \<open>
  Read to the minute, the carve-out rule applies to a span when its start is outside the
  work window and the minute of the day of its end is at or before the cutoff minute.
\<close>

definition carveOut :: "clock \<Rightarrow> int \<Rightarrow> int \<Rightarrow> bool" where
  "carveOut c s e = (outsideWorkWindow c s \<and> minuteOfDay c e \<le> cutoffMinute c)"

text \<open>
  The effective work start of a span: the work-start minute, raised to the cutoff
  minute when the span's start, read to the minute, is outside the work window.
\<close>

definition effectiveWorkStart :: "clock \<Rightarrow> int \<Rightarrow> int" where
  "effectiveWorkStart c s =
     (if outsideWorkWindow c s then max (workStartMinute c) (cutoffMinute c)
      else workStartMinute c)"

text \<open>
  The same notions with the time of day of the instant itself, seconds included, as the
  specification words them: an instant at 18:00:30 is after a work end of 18:00, and
  one at 07:30:30 is after a cutoff of 07:30.
\<close>

definition secondOfDay :: "clock \<Rightarrow> int \<Rightarrow> int" where
  "secondOfDay c t = hour (tz c t) * 3600 + minute (tz c t) * 60 + second (tz c t)"

definition outsideWorkWindowToTheSecond :: "clock \<Rightarrow> int \<Rightarrow> bool" where
  "outsideWorkWindowToTheSecond c t =
     (\<not> onWorkDay c t \<or>
      (onWorkDay c t \<and>
       (secondOfDay c t < workStartMinute c * 60 \<or> workEndMinute c * 60 < secondOfDay c t)))"

definition carveOutToTheSecond :: "clock \<Rightarrow> int \<Rightarrow> int \<Rightarrow> bool" where
  "carveOutToTheSecond c s e =
     (outsideWorkWindowToTheSecond c s \<and> secondOfDay c e \<le> cutoffMinute c * 60)"

definition effectiveWorkStartToTheSecond :: "clock \<Rightarrow> int \<Rightarrow> int" where
  "effectiveWorkStartToTheSecond c s =
     (if outsideWorkWindowToTheSecond c s then max (workStartMinute c) (cutoffMinute c)
      else workStartMinute c)"

text \<open>
  The slices of the interval from \<open>s\<close> to \<open>e\<close>: slice \<open>k\<close> starts \<open>k\<close> hours after
  \<open>s\<close> and ends an hour later, or at \<open>e\<close> if that comes first; there are as many as
  hours started between \<open>s\<close> and \<open>e\<close>.
\<close>

definition sliceCount :: "int \<Rightarrow> int \<Rightarrow> nat" where
  "sliceCount s e = nat ((e - s + 3599999) div 3600000)"

definition sliceStart :: "int \<Rightarrow> nat \<Rightarrow> int" where
  "sliceStart s k = s + int k * 3600000"

definition sliceEnd :: "int \<Rightarrow> int \<Rightarrow> nat \<Rightarrow> int" where
  "sliceEnd s e k = min e (s + (int k + 1) * 3600000)"

text \<open>
  What the slice from \<open>a\<close> to \<open>b\<close> contributes: nothing when \<open>a\<close> is not on a work
  day; otherwise the width of the overlap of the minutes of the day from that of \<open>a\<close>
  to that of \<open>b\<close> with the minutes from \<open>lo\<close> to the work-end minute, and nothing when
  they do not overlap.
\<close>

definition sliceOverlap :: "clock \<Rightarrow> int \<Rightarrow> int \<Rightarrow> int \<Rightarrow> int" where
  "sliceOverlap c lo a b =
     (if onWorkDay c a
      then max 0 (min (minuteOfDay c b) (workEndMinute c) - max (minuteOfDay c a) lo)
      else 0)"

subsection \<open>Example inputs\<close>

text \<open>The default clock with the morning cutoff moved to 10:00, after the work start.\<close>

definition lateCutoffClock :: clock where
  "lateCutoffClock = defaultClock \<lparr> morningCutoff := \<lparr> hh = 10, mm = 0 \<rparr> \<rparr>"

text \<open>
  A pull request opened on Saturday 6 January 2024 at 01:00 local time and still open
  thirty days later, with the worst value of every signal.
\<close>

definition staleRun :: pr_run where
  "staleRun =
     \<lparr> isLegacy = False, isFunctional = True, clk = defaultClock,
       pr_state = ''open'', isMerged = False,
       createdAt = 1704517200000, pr_closed_at = None,
       pr_additions = 2000, pr_deletions = 0, branchOk = False,
       totalCommits = 10, commitsStandardOk = 0, sumFiles = 500, sumLines = 5000,
       countForAverages = 10, approvalsCount = 0,
       issueComments = 0, reviewComments = 0, resolvedThreads = 0,
       newDate = 1707109200000, Date_now = 1707109200000 \<rparr>"

text \<open>
  A pull request opened on Monday 1 January 2024 at 10:00 local time and merged at
  12:00, with the best value of every signal; the script runs forty days later.
\<close>

definition perfectRun :: pr_run where
  "perfectRun =
     \<lparr> isLegacy = False, isFunctional = True, clk = defaultClock,
       pr_state = ''closed'', isMerged = True,
       createdAt = 1704117600000, pr_closed_at = Some 1704124800000,
       pr_additions = 30, pr_deletions = 10, branchOk = True,
       totalCommits = 2, commitsStandardOk = 2, sumFiles = 6, sumLines = 80,
       countForAverages = 2, approvalsCount = 3,
       issueComments = 1, reviewComments = 0, resolvedThreads = 0,
       newDate = 1707573600000, Date_now = 1707573600000 \<rparr>"

text \<open>
  The example with the worst signals, closed without a merge \<open>ms\<close> milliseconds after
  it was opened.
\<close>

definition closedAfter :: "int \<Rightarrow> pr_run" where
  "closedAfter ms =
     staleRun \<lparr> pr_state := ''closed'', pr_closed_at := Some (createdAt staleRun + ms) \<rparr>"

section \<open>Auxiliary facts\<close>

subsection \<open>The scorer\<close>

lemma scoreByThresholds_Cons:
  "scoreByThresholds v (t # ts) = (if admits t v then score t else scoreByThresholds v ts)"
  by (cases "min_bound t"; cases "max_bound t") (simp_all add: admits_def)

declare scoreByThresholds.simps(2) [simp del]
declare scoreByThresholds_Cons [simp]

lemma scoreByThresholds_in:
  "1 \<in> S \<Longrightarrow> \<forall>t\<in>set tbl. score t \<in> S \<Longrightarrow> scoreByThresholds v tbl \<in> S"
  by (induction tbl) simp_all

lemma one_in_scores15: "1 \<in> scores15"
  by (simp add: scores15_def)

lemma scores15_bounds: "s \<in> scores15 \<Longrightarrow> 1 \<le> s \<and> s \<le> 5"
  by (auto simp: scores15_def)

lemma tables_scores:
  "\<forall>t\<in>set thresholdsCommitsCount. score t \<in> scores15"
  "\<forall>t\<in>set (thresholdsAvgFilesPerCommit l). score t \<in> scores15"
  "\<forall>t\<in>set (thresholdsAvgLinesPerCommit l). score t \<in> scores15"
  "\<forall>t\<in>set (thresholdsLinesModified l). score t \<in> scores15"
  "\<forall>t\<in>set (thresholdsCloseTimeHours c). score t \<in> scores15"
  "\<forall>t\<in>set (thresholdsObservations c). score t \<in> scores15"
  by (simp_all add: scores15_def thresholdsCommitsCount_def thresholdsAvgFilesPerCommit_def
      thresholdsAvgLinesPerCommit_def thresholdsLinesModified_def thresholdsCloseTimeHours_def
      thresholdsObservations_def)

lemma table_score_in:
  "s_commitsCount r \<in> scores15" "s_avgFiles r \<in> scores15" "s_avgLines r \<in> scores15"
  "s_linesModified r \<in> scores15" "s_closeTime r \<in> scores15" "s_observations r \<in> scores15"
  unfolding s_commitsCount_def s_avgFiles_def s_avgLines_def s_linesModified_def
      s_closeTime_def s_observations_def
  by (rule scoreByThresholds_in [OF one_in_scores15] tables_scores)+

lemma rule_score_in:
  "s_commitStandard r \<in> scores15" "s_approvals r \<in> scores15" "s_declined r \<in> scores15"
  "s_branch r \<in> scores15"
  by (simp_all add: s_commitStandard_def s_approvals_def s_declined_def s_branch_def scores15_def)

subsection \<open>The category aggregates as weighted sums\<close>

text \<open>The weights of each category add up to 1, so the division of \<open>weightedAvg\<close> is by 1.\<close>

lemma M1_eq: "M1 r = 0.30 * s_commitsCount r + 0.20 * s_avgFiles r + 0.20 * s_avgLines r
    + 0.30 * s_commitStandard r"
  by (simp add: M1_def weightedAvg_def)

lemma M2_eq: "M2 r = 0.50 * s_approvals r + 0.20 * s_declined r + 0.30 * s_branch r"
  by (simp add: M2_def weightedAvg_def)

lemma M3_eq: "M3 r = 0.75 * s_closeTime r + 0.25 * s_linesModified r"
  by (simp add: M3_def weightedAvg_def)

lemma M4_eq: "M4 r = s_observations r"
  by (simp add: M4_def weightedAvg_def)

lemma mix4:
  fixes a b c d :: real
  assumes "1 \<le> a \<and> a \<le> 5" "1 \<le> b \<and> b \<le> 5" "1 \<le> c \<and> c \<le> 5" "1 \<le> d \<and> d \<le> 5"
  shows "1 \<le> 0.30 * a + 0.20 * b + 0.20 * c + 0.30 * d \<and>
         0.30 * a + 0.20 * b + 0.20 * c + 0.30 * d \<le> 5"
  using assms by simp

lemma mix3:
  fixes a b c :: real
  assumes "1 \<le> a \<and> a \<le> 5" "1 \<le> b \<and> b \<le> 5" "1 \<le> c \<and> c \<le> 5"
  shows "1 \<le> 0.50 * a + 0.20 * b + 0.30 * c \<and> 0.50 * a + 0.20 * b + 0.30 * c \<le> 5"
  using assms by simp

lemma mix2:
  fixes a b :: real
  assumes "1 \<le> a \<and> a \<le> 5" "1 \<le> b \<and> b \<le> 5"
  shows "1 \<le> 0.75 * a + 0.25 * b \<and> 0.75 * a + 0.25 * b \<le> 5"
  using assms by simp

lemma M1_bounds: "1 \<le> M1 r \<and> M1 r \<le> 5"
  unfolding M1_eq
  by (rule mix4 [OF scores15_bounds scores15_bounds scores15_bounds scores15_bounds])
    (rule table_score_in rule_score_in)+

lemma M2_bounds: "1 \<le> M2 r \<and> M2 r \<le> 5"
  unfolding M2_eq
  by (rule mix3 [OF scores15_bounds scores15_bounds scores15_bounds])
    (rule table_score_in rule_score_in)+

lemma M3_bounds: "1 \<le> M3 r \<and> M3 r \<le> 5"
  unfolding M3_eq
  by (rule mix2 [OF scores15_bounds scores15_bounds])
    (rule table_score_in rule_score_in)+

lemma M4_bounds: "1 \<le> M4 r \<and> M4 r \<le> 5"
  unfolding M4_eq by (rule scores15_bounds) (rule table_score_in)

subsection \<open>The clock\<close>

lemma Math_round_minutes: "Math_round (real_of_int d / 60000) = (d + 30000) div 60000"
proof -
  have "real_of_int d / 60000 + 1 / 2 = real_of_int (d + 30000) / real_of_int 60000"
    by simp
  then show ?thesis
    unfolding Math_round_def by (simp only: floor_divide_of_int_eq)
qed

text \<open>
  The difference of the two clamped minutes, added only when positive, is the width of
  the overlap of the two ranges of minutes.
\<close>

lemma clamp_diff_overlap:
  "(if clamp y lo hi > clamp x lo hi then acc + (clamp y lo hi - clamp x lo hi) else acc)
     = acc + max 0 (min y hi - max x lo)"
  by (auto simp: clamp_def max_def min_def)

lemma startInWork_iff:
  "(isWeekday (weekday (tz c s)) \<and> minutesSinceMidnight (hour (tz c s)) (minute (tz c s))
        \<ge> minutesSinceMidnight (hh (workStart c)) (mm (workStart c))
      \<and> minutesSinceMidnight (hour (tz c s)) (minute (tz c s))
        \<le> minutesSinceMidnight (hh (workEnd c)) (mm (workEnd c)))
     = (\<not> outsideWorkWindow c s)"
  by (auto simp: outsideWorkWindow_def onWorkDay_def isWeekday_def minuteOfDay_def
      workStartMinute_def workEndMinute_def minutesSinceMidnight_def)

lemma sliceCount_0: "e \<le> s \<Longrightarrow> sliceCount s e = 0"
  by (simp add: sliceCount_def)

lemma sliceCount_Suc:
  assumes "s < e"
  shows "sliceCount s e = Suc (sliceCount (min e (s + 3600000)) e)"
proof (cases "s + 3600000 < e")
  case True
  then have "(e - s + 3599999) div 3600000 = (e - (s + 3600000) + 3599999) div 3600000 + 1"
    by simp
  moreover have "0 \<le> (e - (s + 3600000) + 3599999) div 3600000"
    using True by simp
  ultimately show ?thesis
    using True by (simp add: sliceCount_def min_def nat_add_distrib)
next
  case False
  with assms have "(e - s + 3599999) div 3600000 = 1"
    by simp
  with False show ?thesis
    by (simp add: sliceCount_def min_def)
qed

lemma sum_shift_first:
  fixes f :: "nat \<Rightarrow> int"
  shows "(\<Sum>k = 0..<Suc n. f k) = f 0 + (\<Sum>k = 0..<n. f (Suc k))"
  using sum.atLeast0_lessThan_Suc_shift [of f n] by (simp only: comp_def)

text \<open>The loop, started at \<open>cur\<close> with \<open>acc\<close> minutes, adds the overlaps of the slices from \<open>cur\<close>.\<close>

lemma businessLoop_sum:
  "businessLoop (tz c) (workStartMinute c) (workEndMinute c) (cutoffMinute c) siw e cur acc
     = acc + (\<Sum>k = 0..<sliceCount cur e.
          sliceOverlap c (if \<not> siw then max (workStartMinute c) (cutoffMinute c) else workStartMinute c)
            (sliceStart cur k) (sliceEnd cur e k))"
proof (induction "nat (e - cur)" arbitrary: cur acc rule: less_induct)
  case less
  let ?lo = "if \<not> siw then max (workStartMinute c) (cutoffMinute c) else workStartMinute c"
  show ?case
  proof (cases "cur < e")
    case False
    then show ?thesis
      by (subst businessLoop.simps) (simp add: sliceCount_0)
  next
    case True
    let ?next = "min e (cur + 3600000)"
    let ?acc' = "acc + sliceOverlap c ?lo cur ?next"
    have step: "businessLoop (tz c) (workStartMinute c) (workEndMinute c) (cutoffMinute c) siw e cur acc
        = businessLoop (tz c) (workStartMinute c) (workEndMinute c) (cutoffMinute c) siw e ?next ?acc'"
      using True
      by (subst businessLoop.simps)
        (simp add: Let_def clamp_diff_overlap sliceOverlap_def onWorkDay_def isWeekday_def
          minuteOfDay_def minutesSinceMidnight_def)
    have "nat (e - ?next) < nat (e - cur)"
      using True by (simp add: min_def)
    then have ih: "businessLoop (tz c) (workStartMinute c) (workEndMinute c) (cutoffMinute c) siw e ?next ?acc'
        = ?acc' + (\<Sum>k = 0..<sliceCount ?next e. sliceOverlap c ?lo (sliceStart ?next k) (sliceEnd ?next e k))"
      by (rule less)
    have shift: "(\<Sum>k = 0..<sliceCount ?next e. sliceOverlap c ?lo (sliceStart ?next k) (sliceEnd ?next e k))
        = (\<Sum>k = 0..<sliceCount ?next e. sliceOverlap c ?lo (sliceStart cur (Suc k)) (sliceEnd cur e (Suc k)))"
    proof (cases "cur + 3600000 < e")
      case True
      then show ?thesis
        by (simp add: sliceStart_def sliceEnd_def min_def algebra_simps)
    next
      case False
      then show ?thesis
        by (simp add: min_def sliceCount_0)
    qed
    have first: "sliceOverlap c ?lo cur ?next = sliceOverlap c ?lo (sliceStart cur 0) (sliceEnd cur e 0)"
      by (simp add: sliceStart_def sliceEnd_def)
    have "(\<Sum>k = 0..<sliceCount cur e. sliceOverlap c ?lo (sliceStart cur k) (sliceEnd cur e k))
        = sliceOverlap c ?lo (sliceStart cur 0) (sliceEnd cur e 0)
          + (\<Sum>k = 0..<sliceCount ?next e. sliceOverlap c ?lo (sliceStart cur (Suc k)) (sliceEnd cur e (Suc k)))"
      unfolding sliceCount_Suc [OF True] by (rule sum_shift_first)
    with step ih shift first show ?thesis
      by simp
  qed
qed

text \<open>The three outcomes of \<open>businessMinutesBetween\<close>.\<close>

lemma businessMinutesBetween_cases:
  "businessMinutesBetween c s e =
     (if e \<le> s then 0
      else if carveOut c s e then (e - s + 30000) div 60000
      else (\<Sum>k = 0..<sliceCount s e.
              sliceOverlap c (effectiveWorkStart c s) (sliceStart s k) (sliceEnd s e k)))"
proof -
  have loop: "businessLoop (tz c) (minutesSinceMidnight (hh (workStart c)) (mm (workStart c)))
        (minutesSinceMidnight (hh (workEnd c)) (mm (workEnd c)))
        (minutesSinceMidnight (hh (morningCutoff c)) (mm (morningCutoff c)))
        (\<not> outsideWorkWindow c s) e s 0
      = (\<Sum>k = 0..<sliceCount s e.
              sliceOverlap c (effectiveWorkStart c s) (sliceStart s k) (sliceEnd s e k))"
    using businessLoop_sum [of c "\<not> outsideWorkWindow c s" e s 0]
    by (simp add: effectiveWorkStart_def workStartMinute_def workEndMinute_def cutoffMinute_def
        minutesSinceMidnight_def)
  have cut: "(minutesSinceMidnight (hour (tz c e)) (minute (tz c e))
        \<le> minutesSinceMidnight (hh (morningCutoff c)) (mm (morningCutoff c)))
      = (minuteOfDay c e \<le> cutoffMinute c)"
    by (simp add: minuteOfDay_def cutoffMinute_def minutesSinceMidnight_def)
  show ?thesis
    unfolding businessMinutesBetween_def Let_def startInWork_iff cut loop Math_round_minutes
    by (simp add: carveOut_def)
qed

text \<open>The slices tile the interval: each is at most an hour long and starts where the last ended.\<close>

lemma slices_tile:
  assumes "s < e" "k < sliceCount s e"
  shows "sliceStart s k < sliceEnd s e k"
    and "sliceEnd s e k \<le> sliceStart s k + 3600000"
    and "Suc k < sliceCount s e \<Longrightarrow> sliceEnd s e k = sliceStart s (Suc k)"
    and "Suc k = sliceCount s e \<Longrightarrow> sliceEnd s e k = e"
  using assms by (auto simp: sliceStart_def sliceEnd_def sliceCount_def min_def algebra_simps)

subsection \<open>Evaluation at the example inputs\<close>

lemma zone_eval:
  "fixedOffsetZone (- 240) t =
     \<lparr> hour = ((t - 14400000) mod 86400000) div 3600000,
       minute = (((t - 14400000) mod 86400000) div 60000) mod 60,
       second = (((t - 14400000) mod 86400000) div 1000) mod 60,
       weekday = [''Thu'', ''Fri'', ''Sat'', ''Sun'', ''Mon'', ''Tue'', ''Wed'']
                   ! nat (((t - 14400000) div 86400000) mod 7) \<rparr>"
  by (simp add: fixedOffsetZone_def Let_def)

lemma default_minutes:
  "workStartMinute defaultClock = 540" "workEndMinute defaultClock = 1080"
  "cutoffMinute defaultClock = 450" "tz defaultClock = fixedOffsetZone (- 240)"
  by (simp_all add: workStartMinute_def workEndMinute_def cutoffMinute_def defaultClock_def)

lemma late_minutes:
  "workStartMinute lateCutoffClock = 540" "workEndMinute lateCutoffClock = 1080"
  "cutoffMinute lateCutoffClock = 600" "tz lateCutoffClock = fixedOffsetZone (- 240)"
  by (simp_all add: workStartMinute_def workEndMinute_def cutoffMinute_def defaultClock_def
      lateCutoffClock_def)

lemma sum2:
  fixes f :: "nat \<Rightarrow> int"
  shows "(\<Sum>k = 0..<2. f k) = f 0 + f 1"
  by (simp add: eval_nat_numeral)

lemma sum12:
  fixes f :: "nat \<Rightarrow> int"
  shows "(\<Sum>k = 0..<12. f k) = f 0 + f 1 + f 2 + f 3 + f 4 + f 5 + f 6 + f 7 + f 8 + f 9 + f 10 + f 11"
  by (simp add: eval_nat_numeral)

lemma sum13:
  fixes f :: "nat \<Rightarrow> int"
  shows "(\<Sum>k = 0..<13. f k) =
    f 0 + f 1 + f 2 + f 3 + f 4 + f 5 + f 6 + f 7 + f 8 + f 9 + f 10 + f 11 + f 12"
  by (simp add: eval_nat_numeral)

text \<open>The notions of the specification at a clock whose zone is four hours behind UTC.\<close>

lemma slice_eval:
  "tz c = fixedOffsetZone (- 240) \<Longrightarrow>
   sliceOverlap c lo a b =
     (if weekday (fixedOffsetZone (- 240) a) \<in> {''Mon'', ''Tue'', ''Wed'', ''Thu'', ''Fri''}
      then max 0 (min (hour (fixedOffsetZone (- 240) b) * 60 + minute (fixedOffsetZone (- 240) b))
                      (workEndMinute c)
                 - max (hour (fixedOffsetZone (- 240) a) * 60 + minute (fixedOffsetZone (- 240) a)) lo)
      else 0)"
  by (simp add: sliceOverlap_def onWorkDay_def minuteOfDay_def)

lemma window_eval:
  "tz c = fixedOffsetZone (- 240) \<Longrightarrow>
   outsideWorkWindow c t =
     (weekday (fixedOffsetZone (- 240) t) \<notin> {''Mon'', ''Tue'', ''Wed'', ''Thu'', ''Fri''} \<or>
      hour (fixedOffsetZone (- 240) t) * 60 + minute (fixedOffsetZone (- 240) t) < workStartMinute c \<or>
      workEndMinute c < hour (fixedOffsetZone (- 240) t) * 60 + minute (fixedOffsetZone (- 240) t))"
  by (auto simp: outsideWorkWindow_def onWorkDay_def minuteOfDay_def)

lemma moy_eval:
  "tz c = fixedOffsetZone (- 240) \<Longrightarrow>
   minuteOfDay c t = hour (fixedOffsetZone (- 240) t) * 60 + minute (fixedOffsetZone (- 240) t)"
  by (simp add: minuteOfDay_def)

lemma window_second_eval:
  "tz c = fixedOffsetZone (- 240) \<Longrightarrow>
   outsideWorkWindowToTheSecond c t =
     (weekday (fixedOffsetZone (- 240) t) \<notin> {''Mon'', ''Tue'', ''Wed'', ''Thu'', ''Fri''} \<or>
      hour (fixedOffsetZone (- 240) t) * 3600 + minute (fixedOffsetZone (- 240) t) * 60
        + second (fixedOffsetZone (- 240) t) < workStartMinute c * 60 \<or>
      workEndMinute c * 60 < hour (fixedOffsetZone (- 240) t) * 3600
        + minute (fixedOffsetZone (- 240) t) * 60 + second (fixedOffsetZone (- 240) t))"
  by (auto simp: outsideWorkWindowToTheSecond_def onWorkDay_def secondOfDay_def)

lemma sod_eval:
  "tz c = fixedOffsetZone (- 240) \<Longrightarrow>
   secondOfDay c t = hour (fixedOffsetZone (- 240) t) * 3600
     + minute (fixedOffsetZone (- 240) t) * 60 + second (fixedOffsetZone (- 240) t)"
  by (simp add: secondOfDay_def)

lemma stale_scores:
  "s_commitsCount staleRun = 1" "s_avgFiles staleRun = 1" "s_avgLines staleRun = 1"
  "s_linesModified staleRun = 1" "s_commitStandard staleRun = 1"
  "s_approvals staleRun = 2" "s_declined staleRun = 5" "s_branch staleRun = 2"
  by (simp_all add: staleRun_def s_commitsCount_def s_avgFiles_def s_avgLines_def
      s_linesModified_def s_commitStandard_def s_approvals_def s_declined_def s_branch_def
      thresholdsCommitsCount_def thresholdsAvgFilesPerCommit_def thresholdsAvgLinesPerCommit_def
      thresholdsLinesModified_def avgFilesPerCommit_def avgLinesPerCommit_def linesModified_def
      commitStandardPct_def declinedThisPr_def isClosed_def admits_def)

lemma stale_complexity: "complexity staleRun = 1"
  by (simp add: complexity_def weightedAvg_def stale_scores Math_round_def)
    (simp add: staleRun_def)

lemma stale_mins: "businessMins staleRun = 43200"
proof -
  have "carveOut defaultClock 1704517200000 1707109200000"
    by (simp add: carveOut_def window_eval moy_eval default_minutes zone_eval)
  then have "businessMinutesBetween defaultClock 1704517200000 1707109200000 = 43200"
    by (simp add: businessMinutesBetween_cases)
  then show ?thesis
    by (simp add: businessMins_def closedAt_def staleRun_def)
qed

lemma stale_scores2: "s_closeTime staleRun = 1" "s_observations staleRun = 1"
  by (simp_all add: s_closeTime_def s_observations_def closeHours_def stale_mins stale_complexity
      thresholdsCloseTimeHours_def thresholdsObservations_def admits_def observations_def
      totalComments_def)
    (simp_all add: staleRun_def)

lemma stale_M: "M1 staleRun = 1" "M2 staleRun = 2.6" "M3 staleRun = 1" "M4 staleRun = 1"
  by (simp_all add: M1_eq M2_eq M3_eq M4_eq stale_scores stale_scores2)

lemma perfect_scores:
  "s_commitsCount perfectRun = 5" "s_avgFiles perfectRun = 5" "s_avgLines perfectRun = 5"
  "s_linesModified perfectRun = 5" "s_commitStandard perfectRun = 5"
  "s_approvals perfectRun = 5" "s_declined perfectRun = 5" "s_branch perfectRun = 5"
  by (simp_all add: perfectRun_def s_commitsCount_def s_avgFiles_def s_avgLines_def
      s_linesModified_def s_commitStandard_def s_approvals_def s_declined_def s_branch_def
      thresholdsCommitsCount_def thresholdsAvgFilesPerCommit_def thresholdsAvgLinesPerCommit_def
      thresholdsLinesModified_def avgFilesPerCommit_def avgLinesPerCommit_def linesModified_def
      commitStandardPct_def declinedThisPr_def isClosed_def admits_def)

lemma perfect_complexity: "complexity perfectRun = 5"
  by (simp add: complexity_def weightedAvg_def perfect_scores Math_round_def)

lemma perfect_mins: "businessMins perfectRun = 120"
proof -
  have "\<not> carveOut defaultClock 1704117600000 1704124800000"
    by (simp add: carveOut_def window_eval moy_eval default_minutes zone_eval)
  moreover have "effectiveWorkStart defaultClock 1704117600000 = 540"
    by (simp add: effectiveWorkStart_def window_eval default_minutes zone_eval)
  moreover have "sliceCount 1704117600000 1704124800000 = 2"
    by (simp add: sliceCount_def)
  moreover have "(\<Sum>k = 0..<2. sliceOverlap defaultClock 540
          (sliceStart 1704117600000 k) (sliceEnd 1704117600000 1704124800000 k)) = 120"
    by (simp only: sum2)
      (simp add: slice_eval default_minutes sliceStart_def sliceEnd_def zone_eval)
  ultimately have "businessMinutesBetween defaultClock 1704117600000 1704124800000 = 120"
    by (simp add: businessMinutesBetween_cases)
  then show ?thesis
    by (simp add: businessMins_def closedAt_def perfectRun_def)
qed

lemma perfect_scores2: "s_closeTime perfectRun = 5" "s_observations perfectRun = 5"
  by (simp_all add: s_closeTime_def s_observations_def closeHours_def perfect_mins
      perfect_complexity thresholdsCloseTimeHours_def thresholdsObservations_def admits_def
      observations_def totalComments_def)
    (simp_all add: perfectRun_def)

lemma perfect_M: "M1 perfectRun = 5" "M2 perfectRun = 5" "M3 perfectRun = 5" "M4 perfectRun = 5"
  by (simp_all add: M1_eq M2_eq M3_eq M4_eq perfect_scores perfect_scores2)

lemma stale_when: "pr_state perfectRun = ''closed''" "pr_state staleRun = ''open''"
  "Date_now staleRun - createdAt staleRun = 30 * 86400000"
  by (simp_all add: perfectRun_def staleRun_def)

lemma ageDays_gt_7: "(ageDays r > 7) = (Date_now r - createdAt r > 7 * 86400000)"
proof -
  have "(real_of_int (Date_now r - createdAt r) / 86400000 > 7)
      = (real_of_int (Date_now r - createdAt r) > real_of_int (7 * 86400000))"
    by (simp add: field_simps)
  also have "\<dots> = (Date_now r - createdAt r > 7 * 86400000)"
    by (simp only: of_int_less_iff)
  finally show ?thesis
    by (simp add: ageDays_def)
qed

subsection \<open>Close hours and the example closed early\<close>

text \<open>Close hours are whole minutes over 60: above half an hour they are at least 31 minutes.\<close>

lemma closeHours_step:
  assumes "1 / 2 < closeHours r"
  shows "0.5001 \<le> closeHours r"
proof -
  have "real_of_int 30 < real_of_int (businessMins r)"
    using assms by (simp add: closeHours_def)
  then have "30 < businessMins r"
    by (simp only: of_int_less_iff)
  then have "31 \<le> businessMins r"
    by simp
  then have "real_of_int 31 \<le> real_of_int (businessMins r)"
    by (simp only: of_int_le_iff)
  then show ?thesis
    by (simp add: closeHours_def)
qed

lemma closedAfter_complexity: "complexity (closedAfter ms) = 1"
proof -
  have "s_commitsCount (closedAfter ms) = s_commitsCount staleRun"
    "s_avgFiles (closedAfter ms) = s_avgFiles staleRun"
    "s_avgLines (closedAfter ms) = s_avgLines staleRun"
    "s_linesModified (closedAfter ms) = s_linesModified staleRun"
    "isFunctional (closedAfter ms) = isFunctional staleRun"
    by (simp_all add: closedAfter_def s_commitsCount_def s_avgFiles_def s_avgLines_def
        s_linesModified_def avgFilesPerCommit_def avgLinesPerCommit_def linesModified_def)
  then have "complexity (closedAfter ms) = complexity staleRun"
    by (simp add: complexity_def)
  then show ?thesis
    by (simp add: stale_complexity)
qed

lemma closedAfter_mins:
  "businessMins (closedAfter 1200000) = 20" "businessMins (closedAfter 2700000) = 45"
proof -
  have "carveOut defaultClock 1704517200000 1704518400000"
    "carveOut defaultClock 1704517200000 1704519900000"
    by (simp_all add: carveOut_def window_eval moy_eval default_minutes zone_eval)
  then have "businessMinutesBetween defaultClock 1704517200000 1704518400000 = 20"
    "businessMinutesBetween defaultClock 1704517200000 1704519900000 = 45"
    by (simp_all add: businessMinutesBetween_cases)
  then show "businessMins (closedAfter 1200000) = 20" "businessMins (closedAfter 2700000) = 45"
    by (simp_all add: businessMins_def closedAt_def closedAfter_def staleRun_def)
qed

subsection \<open>Coverage of the tables\<close>

text \<open>
  A quotient of naturals with a denominator of at most 1000 that lies below a natural
  lies at least a thousandth below it.
\<close>

lemma ratio_gap:
  fixes n d T :: nat
  assumes d: "1 \<le> d" "d \<le> 1000" and lt: "real n / real d < real T"
  shows "real n / real d \<le> real T - 1 / 1000"
proof -
  have dpos: "0 < real d" using d by simp
  from lt dpos have "real n < real T * real d"
    by (simp add: pos_divide_less_eq)
  then have "real n < real (T * d)" by simp
  then have "n < T * d" by (simp only: of_nat_less_iff)
  then have "n + 1 \<le> T * d" by simp
  then have "real (n + 1) \<le> real (T * d)" by (simp only: of_nat_le_iff)
  then have "real n + 1 \<le> real T * real d" by simp
  then have "real n / real d + 1 / real d \<le> real T"
    using dpos by (simp add: field_simps)
  moreover have "1 / 1000 \<le> 1 / real d"
    using d dpos by (simp add: field_simps)
  ultimately show ?thesis by simp
qed

lemma five_bands:
  fixes v :: real
  assumes "v < a \<Longrightarrow> v \<le> a'" "v < b \<Longrightarrow> v \<le> b'" "v < c \<Longrightarrow> v \<le> c'" "v < e \<Longrightarrow> v \<le> e'"
  shows "\<exists>t\<in>set [\<lparr> min_bound = Some a, max_bound = None, score = s1 \<rparr>,
                   \<lparr> min_bound = Some b, max_bound = Some a', score = s2 \<rparr>,
                   \<lparr> min_bound = Some c, max_bound = Some b', score = s3 \<rparr>,
                   \<lparr> min_bound = Some e, max_bound = Some c', score = s4 \<rparr>,
                   \<lparr> min_bound = None, max_bound = Some e', score = s5 \<rparr>]. admits t v"
proof -
  consider "a \<le> v" | "v < a" "b \<le> v" | "v < b" "c \<le> v" | "v < c" "e \<le> v" | "v < e"
    by linarith
  then show ?thesis
    using assms by cases (simp_all add: admits_def)
qed

lemma avgFiles_covered:
  fixes n d :: nat
  assumes d: "1 \<le> d" "d \<le> 1000"
  shows "\<exists>t\<in>set (thresholdsAvgFilesPerCommit legacy). admits t (real n / real d)"
proof -
  have g: "\<And>T::nat. real n / real d < real T \<Longrightarrow> real n / real d \<le> real T - 1 / 1000"
    by (rule ratio_gap [OF d])
  have t40: "real n / real d < 40 \<Longrightarrow> real n / real d \<le> 39.999"
  proof -
    assume "real n / real d < 40"
    then have "real n / real d < real (40::nat)" by simp
    then have "real n / real d \<le> real (40::nat) - 1 / 1000" by (rule g)
    also have "real (40::nat) - 1 / 1000 = (39.999::real)" by simp
    finally show ?thesis .
  qed
  have t30: "real n / real d < 30 \<Longrightarrow> real n / real d \<le> 29.999"
  proof -
    assume "real n / real d < 30"
    then have "real n / real d < real (30::nat)" by simp
    then have "real n / real d \<le> real (30::nat) - 1 / 1000" by (rule g)
    also have "real (30::nat) - 1 / 1000 = (29.999::real)" by simp
    finally show ?thesis .
  qed
  have t20: "real n / real d < 20 \<Longrightarrow> real n / real d \<le> 19.999"
  proof -
    assume "real n / real d < 20"
    then have "real n / real d < real (20::nat)" by simp
    then have "real n / real d \<le> real (20::nat) - 1 / 1000" by (rule g)
    also have "real (20::nat) - 1 / 1000 = (19.999::real)" by simp
    finally show ?thesis .
  qed
  have t15: "real n / real d < 15 \<Longrightarrow> real n / real d \<le> 14.999"
  proof -
    assume "real n / real d < 15"
    then have "real n / real d < real (15::nat)" by simp
    then have "real n / real d \<le> real (15::nat) - 1 / 1000" by (rule g)
    also have "real (15::nat) - 1 / 1000 = (14.999::real)" by simp
    finally show ?thesis .
  qed
  have std: "\<exists>t\<in>set (thresholdsAvgFilesPerCommit False). admits t (real n / real d)"
    unfolding thresholdsAvgFilesPerCommit_def not_False_eq_True if_True
    by (rule five_bands) (fact t40 t30 t20 t15)+
  have t60: "real n / real d < 60 \<Longrightarrow> real n / real d \<le> 59.999"
  proof -
    assume "real n / real d < 60"
    then have "real n / real d < real (60::nat)" by simp
    then have "real n / real d \<le> real (60::nat) - 1 / 1000" by (rule g)
    also have "real (60::nat) - 1 / 1000 = (59.999::real)" by simp
    finally show ?thesis .
  qed
  have t50: "real n / real d < 50 \<Longrightarrow> real n / real d \<le> 49.999"
  proof -
    assume "real n / real d < 50"
    then have "real n / real d < real (50::nat)" by simp
    then have "real n / real d \<le> real (50::nat) - 1 / 1000" by (rule g)
    also have "real (50::nat) - 1 / 1000 = (49.999::real)" by simp
    finally show ?thesis .
  qed
  have t35: "real n / real d < 35 \<Longrightarrow> real n / real d \<le> 34.999"
  proof -
    assume "real n / real d < 35"
    then have "real n / real d < real (35::nat)" by simp
    then have "real n / real d \<le> real (35::nat) - 1 / 1000" by (rule g)
    also have "real (35::nat) - 1 / 1000 = (34.999::real)" by simp
    finally show ?thesis .
  qed
  have leg: "\<exists>t\<in>set (thresholdsAvgFilesPerCommit True). admits t (real n / real d)"
    unfolding thresholdsAvgFilesPerCommit_def not_True_eq_False if_False
    by (rule five_bands) (fact t60 t50 t40 t35)+
  from std leg show ?thesis
    by (cases legacy) simp_all
qed

lemma avgLines_covered:
  fixes n d :: nat
  assumes d: "1 \<le> d" "d \<le> 1000"
  shows "\<exists>t\<in>set (thresholdsAvgLinesPerCommit legacy). admits t (real n / real d)"
proof -
  have g: "\<And>T::nat. real n / real d < real T \<Longrightarrow> real n / real d \<le> real T - 1 / 1000"
    by (rule ratio_gap [OF d])
  have t350: "real n / real d < 350 \<Longrightarrow> real n / real d \<le> 349.999"
  proof -
    assume "real n / real d < 350"
    then have "real n / real d < real (350::nat)" by simp
    then have "real n / real d \<le> real (350::nat) - 1 / 1000" by (rule g)
    also have "real (350::nat) - 1 / 1000 = (349.999::real)" by simp
    finally show ?thesis .
  qed
  have t250: "real n / real d < 250 \<Longrightarrow> real n / real d \<le> 249.999"
  proof -
    assume "real n / real d < 250"
    then have "real n / real d < real (250::nat)" by simp
    then have "real n / real d \<le> real (250::nat) - 1 / 1000" by (rule g)
    also have "real (250::nat) - 1 / 1000 = (249.999::real)" by simp
    finally show ?thesis .
  qed
  have t150: "real n / real d < 150 \<Longrightarrow> real n / real d \<le> 149.999"
  proof -
    assume "real n / real d < 150"
    then have "real n / real d < real (150::nat)" by simp
    then have "real n / real d \<le> real (150::nat) - 1 / 1000" by (rule g)
    also have "real (150::nat) - 1 / 1000 = (149.999::real)" by simp
    finally show ?thesis .
  qed
  have t100: "real n / real d < 100 \<Longrightarrow> real n / real d \<le> 99.999"
  proof -
    assume "real n / real d < 100"
    then have "real n / real d < real (100::nat)" by simp
    then have "real n / real d \<le> real (100::nat) - 1 / 1000" by (rule g)
    also have "real (100::nat) - 1 / 1000 = (99.999::real)" by simp
    finally show ?thesis .
  qed
  have std: "\<exists>t\<in>set (thresholdsAvgLinesPerCommit False). admits t (real n / real d)"
    unfolding thresholdsAvgLinesPerCommit_def not_False_eq_True if_True
    by (rule five_bands) (fact t350 t250 t150 t100)+
  have t400: "real n / real d < 400 \<Longrightarrow> real n / real d \<le> 399.999"
  proof -
    assume "real n / real d < 400"
    then have "real n / real d < real (400::nat)" by simp
    then have "real n / real d \<le> real (400::nat) - 1 / 1000" by (rule g)
    also have "real (400::nat) - 1 / 1000 = (399.999::real)" by simp
    finally show ?thesis .
  qed
  have t300: "real n / real d < 300 \<Longrightarrow> real n / real d \<le> 299.999"
  proof -
    assume "real n / real d < 300"
    then have "real n / real d < real (300::nat)" by simp
    then have "real n / real d \<le> real (300::nat) - 1 / 1000" by (rule g)
    also have "real (300::nat) - 1 / 1000 = (299.999::real)" by simp
    finally show ?thesis .
  qed
  have t200: "real n / real d < 200 \<Longrightarrow> real n / real d \<le> 199.999"
  proof -
    assume "real n / real d < 200"
    then have "real n / real d < real (200::nat)" by simp
    then have "real n / real d \<le> real (200::nat) - 1 / 1000" by (rule g)
    also have "real (200::nat) - 1 / 1000 = (199.999::real)" by simp
    finally show ?thesis .
  qed
  have leg: "\<exists>t\<in>set (thresholdsAvgLinesPerCommit True). admits t (real n / real d)"
    unfolding thresholdsAvgLinesPerCommit_def not_True_eq_False if_False
    by (rule five_bands) (fact t400 t300 t200 t150)+
  from std leg show ?thesis
    by (cases legacy) simp_all
qed

lemma commits_covered:
  fixes n :: nat
  assumes "1 \<le> n"
  shows "\<exists>t\<in>set thresholdsCommitsCount. admits t (real n)"
proof -
  consider "8 \<le> n" | "n = 7" | "n = 6" | "n = 5" | "n = 4" | "n = 3" | "n = 2" | "n = 1"
    using assms by linarith
  then show ?thesis
    by cases (simp_all add: thresholdsCommitsCount_def admits_def)
qed


lemma count_gap:
  fixes L T :: nat
  assumes "real L < real T + 1 / 10000"
  shows "real L \<le> real T"
proof (rule ccontr)
  assume "\<not> real L \<le> real T"
  then have "T < L" by simp
  then have "T + 1 \<le> L" by simp
  then have "real (T + 1) \<le> real L" by (simp only: of_nat_le_iff)
  with assms show False by simp
qed

lemma linesModified_covered:
  "\<exists>t\<in>set (thresholdsLinesModified legacy). admits t (real L)"
proof -
  have g: "\<And>T::nat. real L < real T + 1 / 10000 \<Longrightarrow> real L \<le> real T"
    by (rule count_gap)
  have t1200: "real L < 1200.0001 \<Longrightarrow> real L \<le> 1200" using g [of 1200] by simp
  have t700: "real L < 700.0001 \<Longrightarrow> real L \<le> 700" using g [of 700] by simp
  have t500: "real L < 500.0001 \<Longrightarrow> real L \<le> 500" using g [of 500] by simp
  have t300: "real L < 300.0001 \<Longrightarrow> real L \<le> 300" using g [of 300] by simp
  have t100: "real L < 100.0001 \<Longrightarrow> real L \<le> 100" using g [of 100] by simp
  have t50: "real L < 50.0001 \<Longrightarrow> real L \<le> 50" using g [of 50] by simp
  have std: "\<exists>t\<in>set (thresholdsLinesModified False). admits t (real L)"
    unfolding thresholdsLinesModified_def not_False_eq_True if_True
    by (rule five_bands) (fact t1200 t500 t300 t50)+
  have leg: "\<exists>t\<in>set (thresholdsLinesModified True). admits t (real L)"
    unfolding thresholdsLinesModified_def not_True_eq_False if_False
    by (rule five_bands) (fact t1200 t700 t500 t100)+
  from std leg show ?thesis
    by (cases legacy) simp_all
qed

lemma hours_gap:
  fixes m T :: int
  assumes "real_of_int m / 60 < real_of_int T + 1 / 10000"
  shows "real_of_int m / 60 \<le> real_of_int T"
proof (rule ccontr)
  assume "\<not> real_of_int m / 60 \<le> real_of_int T"
  then have "real_of_int (60 * T) < real_of_int m" by simp
  then have "60 * T < m" by (simp only: of_int_less_iff)
  then have "60 * T + 1 \<le> m" by simp
  then have "real_of_int (60 * T + 1) \<le> real_of_int m" by (simp only: of_int_le_iff)
  with assms show False by simp
qed

lemma closeTime_covered:
  "\<exists>t\<in>set (thresholdsCloseTimeHours c). admits t (real_of_int m / 60)"
proof -
  let ?v = "real_of_int m / 60"
  have g: "\<And>T::int. ?v < real_of_int T + 1 / 10000 \<Longrightarrow> ?v \<le> real_of_int T"
    by (rule hours_gap)
  have t32: "?v < 32.0001 \<Longrightarrow> ?v \<le> 32" using g [of 32] by simp
  have t20: "?v < 20.0001 \<Longrightarrow> ?v \<le> 20" using g [of 20] by simp
  have t8: "?v < 8.0001 \<Longrightarrow> ?v \<le> 8" using g [of 8] by simp
  have t4: "?v < 4.0001 \<Longrightarrow> ?v \<le> 4" using g [of 4] by simp
  have tbl: "thresholdsCloseTimeHours 5 =
      [\<lparr> min_bound = Some 32.0001, max_bound = None, score = 1 \<rparr>,
       \<lparr> min_bound = Some 20.0001, max_bound = Some 32, score = 2 \<rparr>,
       \<lparr> min_bound = Some 8.0001, max_bound = Some 20, score = 3 \<rparr>,
       \<lparr> min_bound = Some 4.0001, max_bound = Some 8, score = 4 \<rparr>,
       \<lparr> min_bound = None, max_bound = Some 4, score = 5 \<rparr>]"
    by (simp add: thresholdsCloseTimeHours_def)
  have "\<exists>t\<in>set (thresholdsCloseTimeHours 5). admits t ?v"
    unfolding tbl by (rule five_bands) (fact t32 t20 t8 t4)+
  moreover have "set (thresholdsCloseTimeHours 5) \<subseteq> set (thresholdsCloseTimeHours c)"
    by (simp add: thresholdsCloseTimeHours_def)
  ultimately show ?thesis
    by blast
qed

lemma observations_covered:
  "\<exists>t\<in>set (thresholdsObservations c). admits t (real n)"
proof -
  consider "n = 0" | "n = 1" | "n = 2" | "3 \<le> n" "n \<le> 5" | "6 \<le> n" "n \<le> 10" | "11 \<le> n"
    by linarith
  then show ?thesis
    by cases (simp_all add: thresholdsObservations_def admits_def)
qed

subsection \<open>Values in binary64\<close>

lemma single_b64:
  "weightedAvg_b64 [\<lparr> item_score_b64 = b64_of_int 3, weight_b64 = b64_literal 1 10 \<rparr>]
     = \<lparr> mant = 6755399441055745, expo = - 51 \<rparr>"
  by code_simp

lemma three_b64: "b64_of_int 3 = \<lparr> mant = 3, expo = 0 \<rparr>"
  by code_simp

lemma tenth_b64: "b64_literal 1 10 = \<lparr> mant = 7205759403792794, expo = - 56 \<rparr>"
  by code_simp

lemma unit_weight:
  "b64_val (weightedAvg_b64 [\<lparr> item_score_b64 = b64_of_int 1, weight_b64 = b64_literal 1 1 \<rparr>]) = 1"
  "b64_val (weightedAvg_b64 [\<lparr> item_score_b64 = b64_of_int 2, weight_b64 = b64_literal 1 1 \<rparr>]) = 2"
  "b64_val (weightedAvg_b64 [\<lparr> item_score_b64 = b64_of_int 3, weight_b64 = b64_literal 1 1 \<rparr>]) = 3"
  "b64_val (weightedAvg_b64 [\<lparr> item_score_b64 = b64_of_int 4, weight_b64 = b64_literal 1 1 \<rparr>]) = 4"
  "b64_val (weightedAvg_b64 [\<lparr> item_score_b64 = b64_of_int 5, weight_b64 = b64_literal 1 1 \<rparr>]) = 5"
  by code_simp+

lemma empty_b64: "b64_val (weightedAvg_b64 []) = 0"
  by code_simp

section \<open>The claims\<close>

subsection \<open>C1: the scorer returns the first admitting range's score, else 1\<close>

text \<open>
  Claim C1. For every value \<open>v\<close> and every table \<open>tbl\<close>, \<open>scoreByThresholds v tbl\<close>
  is the score of the first range, in the order of the table, that admits \<open>v\<close>: there
  is a position \<open>i\<close> whose range admits \<open>v\<close> while no earlier range does, and the
  result is that range's score; or no range of the table admits \<open>v\<close>, and the result
  is 1.
\<close>

theorem scoreByThresholds_first_match:
  "(\<exists>i<length tbl. admits (tbl ! i) v \<and> (\<forall>j<i. \<not> admits (tbl ! j) v) \<and>
        scoreByThresholds v tbl = score (tbl ! i)) \<or>
   ((\<forall>t\<in>set tbl. \<not> admits t v) \<and> scoreByThresholds v tbl = 1)"
proof (induction tbl)
  case Nil
  show ?case by simp
next
  case (Cons t ts)
  show ?case
  proof (cases "admits t v")
    case True
    then have "admits ((t # ts) ! 0) v \<and> (\<forall>j<0. \<not> admits ((t # ts) ! j) v) \<and>
        scoreByThresholds v (t # ts) = score ((t # ts) ! 0)"
      by simp
    then show ?thesis by blast
  next
    case False
    from Cons.IH show ?thesis
    proof
      assume "\<exists>i<length ts. admits (ts ! i) v \<and> (\<forall>j<i. \<not> admits (ts ! j) v) \<and>
        scoreByThresholds v ts = score (ts ! i)"
      then obtain i where i: "i < length ts" "admits (ts ! i) v"
        "\<forall>j<i. \<not> admits (ts ! j) v" "scoreByThresholds v ts = score (ts ! i)"
        by blast
      have "\<forall>j<Suc i. \<not> admits ((t # ts) ! j) v"
      proof (intro allI impI)
        fix j assume "j < Suc i"
        then show "\<not> admits ((t # ts) ! j) v"
          using False i(3) by (cases j) simp_all
      qed
      with i False have "Suc i < length (t # ts) \<and> admits ((t # ts) ! Suc i) v \<and>
        (\<forall>j<Suc i. \<not> admits ((t # ts) ! j) v) \<and>
        scoreByThresholds v (t # ts) = score ((t # ts) ! Suc i)"
        by simp
      then show ?thesis by blast
    next
      assume "(\<forall>t\<in>set ts. \<not> admits t v) \<and> scoreByThresholds v ts = 1"
      with False show ?thesis by simp
    qed
  qed
qed

text \<open>
  At the commit-count table: 5 commits are admitted first by the third range, whose
  score 3 is returned; 0 commits are admitted by no range, and 1 is returned.
\<close>

theorem scoreByThresholds_first_match_witness:
  "(\<exists>i<length thresholdsCommitsCount. admits (thresholdsCommitsCount ! i) 5 \<and>
        (\<forall>j<i. \<not> admits (thresholdsCommitsCount ! j) 5) \<and>
        scoreByThresholds 5 thresholdsCommitsCount = score (thresholdsCommitsCount ! i)) \<and>
   scoreByThresholds 5 thresholdsCommitsCount = 3 \<and>
   \<not> (\<exists>t\<in>set thresholdsCommitsCount. admits t 0) \<and>
   scoreByThresholds 0 thresholdsCommitsCount = 1"
proof -
  have "\<not> (\<forall>t\<in>set thresholdsCommitsCount. \<not> admits t 5)"
    by (simp add: thresholdsCommitsCount_def admits_def)
  with scoreByThresholds_first_match [of thresholdsCommitsCount 5]
  have 1: "\<exists>i<length thresholdsCommitsCount. admits (thresholdsCommitsCount ! i) 5 \<and>
        (\<forall>j<i. \<not> admits (thresholdsCommitsCount ! j) 5) \<and>
        scoreByThresholds 5 thresholdsCommitsCount = score (thresholdsCommitsCount ! i)"
    by blast
  have 2: "scoreByThresholds 5 thresholdsCommitsCount = 3"
    by (simp add: thresholdsCommitsCount_def admits_def)
  have "\<forall>t\<in>set thresholdsCommitsCount. \<not> admits t 0"
    by (simp add: thresholdsCommitsCount_def admits_def)
  then have "\<not> (\<exists>i<length thresholdsCommitsCount. admits (thresholdsCommitsCount ! i) 0)"
    using nth_mem by blast
  with scoreByThresholds_first_match [of thresholdsCommitsCount 0]
  have 3: "(\<forall>t\<in>set thresholdsCommitsCount. \<not> admits t 0) \<and>
        scoreByThresholds 0 thresholdsCommitsCount = 1"
    by blast
  from 1 2 3 show ?thesis by blast
qed

subsection \<open>C8: every score is an integer from 1 to 5, every category lies in [1, 5]\<close>

text \<open>
  Claim C8. For every run, each of the ten per-signal scores (commit count, average
  files, average lines, commit standard, lines modified, close time, observations,
  approvals, declined, branch) is one of the integers 1, 2, 3, 4, 5, and each of the
  category aggregates M1, M2, M3, M4 is a real number between 1 and 5.
\<close>

theorem scores_and_categories_in_range:
  "s_commitsCount r \<in> {1, 2, 3, 4, 5} \<and> s_avgFiles r \<in> {1, 2, 3, 4, 5} \<and>
   s_avgLines r \<in> {1, 2, 3, 4, 5} \<and> s_commitStandard r \<in> {1, 2, 3, 4, 5} \<and>
   s_linesModified r \<in> {1, 2, 3, 4, 5} \<and> s_closeTime r \<in> {1, 2, 3, 4, 5} \<and>
   s_observations r \<in> {1, 2, 3, 4, 5} \<and> s_approvals r \<in> {1, 2, 3, 4, 5} \<and>
   s_declined r \<in> {1, 2, 3, 4, 5} \<and> s_branch r \<in> {1, 2, 3, 4, 5} \<and>
   1 \<le> M1 r \<and> M1 r \<le> 5 \<and> 1 \<le> M2 r \<and> M2 r \<le> 5 \<and>
   1 \<le> M3 r \<and> M3 r \<le> 5 \<and> 1 \<le> M4 r \<and> M4 r \<le> 5"
  by (intro conjI table_score_in [unfolded scores15_def] rule_score_in [unfolded scores15_def]
      M1_bounds [THEN conjunct1] M1_bounds [THEN conjunct2]
      M2_bounds [THEN conjunct1] M2_bounds [THEN conjunct2]
      M3_bounds [THEN conjunct1] M3_bounds [THEN conjunct2]
      M4_bounds [THEN conjunct1] M4_bounds [THEN conjunct2])

subsection \<open>C10: at complexity 4 the observations score never exceeds 4\<close>

text \<open>
  Claim C10. For a complexity in the band from 4 up to, not including, 5, the
  observations table ends with the range \<open>{min: 2, score: 5}\<close>, which comes after
  \<open>{min: 1, score: 4}\<close>; every value the last range admits is admitted by the one
  before it, so the first match never selects it: for every non-negative integer count
  of observations the score is at most 4 (3 for no observation, 4 otherwise), and no
  value at all is scored 5.
\<close>

theorem observations_score_at_most_4:
  "4 \<le> c \<and> c < 5 \<longrightarrow>
     last (thresholdsObservations c) = \<lparr> min_bound = Some 2, max_bound = None, score = 5 \<rparr> \<and>
     (\<forall>n::nat. scoreByThresholds (real n) (thresholdsObservations c) \<le> 4) \<and>
     (\<forall>n::nat. scoreByThresholds (real n) (thresholdsObservations c) = (if n = 0 then 3 else 4)) \<and>
     (\<forall>v. admits (thresholdsObservations c ! 2) v \<longrightarrow> admits (thresholdsObservations c ! 1) v) \<and>
     (\<forall>v. scoreByThresholds v (thresholdsObservations c) \<noteq> 5)"
  by (auto simp: thresholdsObservations_def admits_def)

text \<open>At complexity 4: seven observations are admitted by both of the last two ranges and score 4.\<close>

theorem observations_score_at_most_4_witness:
  "(4::real) \<le> 4 \<and> (4::real) < 5 \<and>
   admits (thresholdsObservations 4 ! 2) 7 \<and> admits (thresholdsObservations 4 ! 1) 7 \<and>
   scoreByThresholds (real 7) (thresholdsObservations 4) = 4 \<and>
   scoreByThresholds (real 0) (thresholdsObservations 4) = 3"
proof -
  have h: "(4::real) \<le> 4 \<and> (4::real) < 5" by simp
  have a: "admits (thresholdsObservations 4 ! 2) 7"
    by (simp add: thresholdsObservations_def admits_def)
  from observations_score_at_most_4 [of 4] h
  have "(\<forall>n::nat. scoreByThresholds (real n) (thresholdsObservations 4) = (if n = 0 then 3 else 4))
      \<and> (\<forall>v. admits (thresholdsObservations 4 ! 2) v \<longrightarrow> admits (thresholdsObservations 4 ! 1) v)"
    by blast
  then have "scoreByThresholds (real 7) (thresholdsObservations 4) = (if (7::nat) = 0 then 3 else 4)"
    and "scoreByThresholds (real 0) (thresholdsObservations 4) = (if (0::nat) = 0 then 3 else 4)"
    and "admits (thresholdsObservations 4 ! 1) 7"
    using a by blast+
  with h a show ?thesis by simp
qed

subsection \<open>C3: the carve-out counts the whole span\<close>

text \<open>
  Claim C3, with the times of day read to the minute as the script reads them. For every
  clock and every pair of instants with the end after the start: if the start falls
  outside the work window (on a non-work day, or on a work day with its minute of the
  day before the work-start minute or after the work-end minute) and the minute of the
  day of the end is at or before the cutoff minute, then \<open>businessMinutesBetween\<close>
  returns the whole elapsed duration from start to end in minutes: the elapsed
  milliseconds over 60000, rounded to the nearest minute (a half going up), which is
  the exact number of minutes when the span is a whole number of minutes.
\<close>

theorem carve_out_counts_whole_span:
  "startUtc < endUtc \<and> outsideWorkWindow c startUtc \<and> minuteOfDay c endUtc \<le> cutoffMinute c \<longrightarrow>
     businessMinutesBetween c startUtc endUtc = (endUtc - startUtc + 30000) div 60000 \<and>
     (60000 dvd (endUtc - startUtc) \<longrightarrow>
        businessMinutesBetween c startUtc endUtc * 60000 = endUtc - startUtc)"
proof (intro impI conjI)
  assume h: "startUtc < endUtc \<and> outsideWorkWindow c startUtc \<and> minuteOfDay c endUtc \<le> cutoffMinute c"
  then show r: "businessMinutesBetween c startUtc endUtc = (endUtc - startUtc + 30000) div 60000"
    by (simp add: businessMinutesBetween_cases carveOut_def)
  assume "60000 dvd (endUtc - startUtc)"
  then obtain q where "endUtc - startUtc = 60000 * q" ..
  with r show "businessMinutesBetween c startUtc endUtc * 60000 = endUtc - startUtc"
    by simp
qed

text \<open>
  Under the default clock, a span opened on Friday 5 January 2024 at 20:00 local time
  and closed on Saturday at 07:00 counts its 660 elapsed minutes.
\<close>

theorem carve_out_counts_whole_span_witness:
  "(1704499200000::int) < 1704538800000 \<and> outsideWorkWindow defaultClock 1704499200000 \<and>
   minuteOfDay defaultClock 1704538800000 \<le> cutoffMinute defaultClock \<and>
   60000 dvd (1704538800000 - 1704499200000 :: int) \<and>
   businessMinutesBetween defaultClock 1704499200000 1704538800000 = 660"
proof -
  have h: "(1704499200000::int) < 1704538800000 \<and> outsideWorkWindow defaultClock 1704499200000 \<and>
      minuteOfDay defaultClock 1704538800000 \<le> cutoffMinute defaultClock"
    by (simp add: window_eval moy_eval default_minutes zone_eval)
  have d: "60000 dvd (1704538800000 - 1704499200000 :: int)"
    by simp
  from carve_out_counts_whole_span [of 1704499200000 1704538800000 defaultClock] h d
  have "businessMinutesBetween defaultClock 1704499200000 1704538800000 * 60000
      = 1704538800000 - 1704499200000"
    by blast
  then have "businessMinutesBetween defaultClock 1704499200000 1704538800000 = 660"
    by simp
  with h d show ?thesis by blast
qed

text \<open>
  The claim as it was stated speaks of the start instant and of the time of day of the
  end, seconds included. The script drops the seconds: a start on Monday 1 January 2024
  at 18:00:30 local time is after the work end of 18:00, so outside the work window,
  and an end on Tuesday at 07:00 is before the cutoff of 07:30; the claim gives the span
  its 780 elapsed minutes (779.5, rounded). The script reads the start as minute 1080,
  not after the work-end minute 1080, takes the start to be inside the work window, and
  walks the slices from the work start of 09:00: none of them overlaps the work hours,
  and the result is 0.
\<close>

theorem carve_out_not_taken_within_minute_of_work_end:
  "(1704146430000::int) < 1704193200000 \<and>
   outsideWorkWindowToTheSecond defaultClock 1704146430000 \<and>
   secondOfDay defaultClock 1704193200000 \<le> cutoffMinute defaultClock * 60 \<and>
   (1704193200000 - 1704146430000 + 30000) div 60000 = (780::int) \<and>
   businessMinutesBetween defaultClock 1704146430000 1704193200000 = 0"
proof -
  have o: "outsideWorkWindowToTheSecond defaultClock 1704146430000"
    by (simp add: window_second_eval default_minutes zone_eval)
  have c: "secondOfDay defaultClock 1704193200000 \<le> cutoffMinute defaultClock * 60"
    by (simp add: sod_eval default_minutes zone_eval)
  have nc: "\<not> carveOut defaultClock 1704146430000 1704193200000"
    by (simp add: carveOut_def window_eval default_minutes zone_eval)
  have ew: "effectiveWorkStart defaultClock 1704146430000 = 540"
    by (simp add: effectiveWorkStart_def window_eval default_minutes zone_eval)
  have n: "sliceCount 1704146430000 1704193200000 = 13"
    by (simp add: sliceCount_def)
  have "businessMinutesBetween defaultClock 1704146430000 1704193200000 =
      (\<Sum>k = 0..<13. sliceOverlap defaultClock 540
          (sliceStart 1704146430000 k) (sliceEnd 1704146430000 1704193200000 k))"
    by (simp only: businessMinutesBetween_cases nc ew n) simp
  also have "\<dots> = 0"
    by (simp only: sum13)
      (simp add: slice_eval default_minutes sliceStart_def sliceEnd_def zone_eval)
  finally have r: "businessMinutesBetween defaultClock 1704146430000 1704193200000 = 0" .
  from o c r show ?thesis by simp
qed

subsection \<open>C4: otherwise the business minutes are the sum of the slices' overlaps\<close>

text \<open>
  Claim C4, with the times of day read to the minute as the script reads them. For every
  span, with the end after the start, to which the carve-out rule does not apply (its
  start is not outside the work window, or the minute of the day of its end is after the
  cutoff minute), \<open>businessMinutesBetween\<close> is the sum over the hour-sized slices of
  the interval (the last one shorter when the span is not a whole number of hours) of
  each slice's overlap with the minutes from the effective work start to the work end,
  clamped at zero, for the slices that start on a work day, Monday to Friday; a slice
  that starts on another day adds nothing. The effective work start is the work-start
  minute, raised to the cutoff minute exactly when the start of the whole span is
  outside the work window: it is fixed by the original start, the same for every slice.
  That the slices tile the interval is lemma \<open>slices_tile\<close>.
\<close>

theorem business_minutes_sum_of_slices:
  "startUtc < endUtc \<and> \<not> carveOut c startUtc endUtc \<longrightarrow>
     businessMinutesBetween c startUtc endUtc =
       (\<Sum>k = 0..<sliceCount startUtc endUtc.
          sliceOverlap c (effectiveWorkStart c startUtc)
            (sliceStart startUtc k) (sliceEnd startUtc endUtc k))"
  by (simp add: businessMinutesBetween_cases)

text \<open>
  Under the default clock, Monday 1 January 2024 from 10:00 to 12:00 local time yields
  120 minutes. Under the clock whose cutoff is 10:00, a span from Sunday 23:00 to Monday
  11:00 starts outside the work window, so its effective work start is minute 600 for
  Monday's slices too, and it yields the 60 minutes from 10:00 to 11:00.
\<close>

theorem business_minutes_sum_of_slices_witness:
  "(1704117600000::int) < 1704124800000 \<and> \<not> carveOut defaultClock 1704117600000 1704124800000 \<and>
   businessMinutesBetween defaultClock 1704117600000 1704124800000 = 120 \<and>
   (1704682800000::int) < 1704726000000 \<and> \<not> carveOut lateCutoffClock 1704682800000 1704726000000 \<and>
   effectiveWorkStart lateCutoffClock 1704682800000 = 600 \<and>
   businessMinutesBetween lateCutoffClock 1704682800000 1704726000000 = 60"
proof -
  have h1: "(1704117600000::int) < 1704124800000 \<and> \<not> carveOut defaultClock 1704117600000 1704124800000"
    by (simp add: carveOut_def window_eval moy_eval default_minutes zone_eval)
  have e1: "effectiveWorkStart defaultClock 1704117600000 = 540"
    by (simp add: effectiveWorkStart_def window_eval default_minutes zone_eval)
  have n1: "sliceCount 1704117600000 1704124800000 = 2"
    by (simp add: sliceCount_def)
  from business_minutes_sum_of_slices [of 1704117600000 1704124800000 defaultClock] h1
  have "businessMinutesBetween defaultClock 1704117600000 1704124800000 =
      (\<Sum>k = 0..<2. sliceOverlap defaultClock 540
          (sliceStart 1704117600000 k) (sliceEnd 1704117600000 1704124800000 k))"
    unfolding e1 n1 by blast
  also have "\<dots> = 120"
    by (simp only: sum2)
      (simp add: slice_eval default_minutes sliceStart_def sliceEnd_def zone_eval)
  finally have r1: "businessMinutesBetween defaultClock 1704117600000 1704124800000 = 120" .
  have h2: "(1704682800000::int) < 1704726000000 \<and> \<not> carveOut lateCutoffClock 1704682800000 1704726000000"
    by (simp add: carveOut_def window_eval moy_eval late_minutes zone_eval)
  have e2: "effectiveWorkStart lateCutoffClock 1704682800000 = 600"
    by (simp add: effectiveWorkStart_def window_eval late_minutes zone_eval)
  have n2: "sliceCount 1704682800000 1704726000000 = 12"
    by (simp add: sliceCount_def)
  from business_minutes_sum_of_slices [of 1704682800000 1704726000000 lateCutoffClock] h2
  have "businessMinutesBetween lateCutoffClock 1704682800000 1704726000000 =
      (\<Sum>k = 0..<12. sliceOverlap lateCutoffClock 600
          (sliceStart 1704682800000 k) (sliceEnd 1704682800000 1704726000000 k))"
    unfolding e2 n2 by blast
  also have "\<dots> = 60"
    by (simp only: sum12)
      (simp add: slice_eval late_minutes sliceStart_def sliceEnd_def zone_eval)
  finally have r2: "businessMinutesBetween lateCutoffClock 1704682800000 1704726000000 = 60" .
  from h1 r1 h2 e2 r2 show ?thesis by blast
qed

text \<open>
  The claim as it was stated applies the carve-out rule by the time of day of the end,
  seconds included. Under the default clock, a span from Saturday 6 January 2024 at
  07:00 local time to 07:30:30 starts outside the work window and ends after the cutoff
  of 07:30, so the carve-out rule as stated does not apply, and the claim gives the sum
  of the slices: one slice, on a Saturday, which contributes 0. The script reads the end
  as minute 450, not after the cutoff minute 450, applies the carve-out rule and returns
  the elapsed 30.5 minutes rounded, 31.
\<close>

theorem carve_out_taken_within_minute_of_cutoff:
  "(1704538800000::int) < 1704540630000 \<and>
   \<not> carveOutToTheSecond defaultClock 1704538800000 1704540630000 \<and>
   sliceCount 1704538800000 1704540630000 = 1 \<and>
   sliceOverlap defaultClock (effectiveWorkStartToTheSecond defaultClock 1704538800000)
     (sliceStart 1704538800000 0) (sliceEnd 1704538800000 1704540630000 0) = 0 \<and>
   businessMinutesBetween defaultClock 1704538800000 1704540630000 = 31"
proof -
  have nc: "\<not> carveOutToTheSecond defaultClock 1704538800000 1704540630000"
    by (simp add: carveOutToTheSecond_def sod_eval default_minutes zone_eval)
  have n: "sliceCount 1704538800000 1704540630000 = 1"
    by (simp add: sliceCount_def)
  have s: "sliceOverlap defaultClock (effectiveWorkStartToTheSecond defaultClock 1704538800000)
     (sliceStart 1704538800000 0) (sliceEnd 1704538800000 1704540630000 0) = 0"
    by (simp add: slice_eval default_minutes sliceStart_def sliceEnd_def zone_eval)
  have co: "carveOut defaultClock 1704538800000 1704540630000"
    by (simp add: carveOut_def window_eval moy_eval default_minutes zone_eval)
  have r: "businessMinutesBetween defaultClock 1704538800000 1704540630000 = 31"
    by (simp only: businessMinutesBetween_cases co) simp
  from nc n s r show ?thesis by simp
qed

subsection \<open>C2: maturity is the weighted sum of the categories less the staleness penalty\<close>

text \<open>
  Claim C2. For every run, maturity is M1 * 0.25 + M2 * 0.15 + M3 * 0.35 + M4 * 0.25,
  less exactly 0.5 if and only if the pull request is still open and its age, now less
  created, exceeds 7 days (604800000 milliseconds); nothing is clamped afterwards. So
  with the four categories at 5 and no penalty maturity is exactly 5, and for a
  pull request still open thirty days after its creation it is the weighted sum less
  exactly 0.5.
\<close>

theorem maturity_weighted_sum_and_penalty:
  "maturity r =
     M1 r * 0.25 + M2 r * 0.15 + M3 r * 0.35 + M4 r * 0.25
     - (if pr_state r = ''open'' \<and> Date_now r - createdAt r > 7 * 86400000 then 0.5 else 0) \<and>
   (M1 r = 5 \<and> M2 r = 5 \<and> M3 r = 5 \<and> M4 r = 5 \<and>
      \<not> (pr_state r = ''open'' \<and> Date_now r - createdAt r > 7 * 86400000)
      \<longrightarrow> maturity r = 5) \<and>
   (pr_state r = ''open'' \<and> Date_now r - createdAt r = 30 * 86400000
      \<longrightarrow> maturity r = M1 r * 0.25 + M2 r * 0.15 + M3 r * 0.35 + M4 r * 0.25 - 0.5)"
  by (simp add: maturity_def m5Penalty_def ageDays_gt_7)

text \<open>
  The merged example has all four categories at 5 and maturity 5. The example still
  open after thirty days has categories 1, 2.6, 1 and 1, a weighted sum of 1.24 and
  maturity 0.74: below 1, since nothing clamps it.
\<close>

theorem maturity_weighted_sum_and_penalty_witness:
  "M1 perfectRun = 5 \<and> M2 perfectRun = 5 \<and> M3 perfectRun = 5 \<and> M4 perfectRun = 5 \<and>
   pr_state perfectRun \<noteq> ''open'' \<and> maturity perfectRun = 5 \<and>
   pr_state staleRun = ''open'' \<and> Date_now staleRun - createdAt staleRun = 30 * 86400000 \<and>
   maturity staleRun = 0.74 \<and> maturity staleRun < 1"
proof -
  have p: "M1 perfectRun = 5 \<and> M2 perfectRun = 5 \<and> M3 perfectRun = 5 \<and> M4 perfectRun = 5 \<and>
      \<not> (pr_state perfectRun = ''open'' \<and> Date_now perfectRun - createdAt perfectRun > 7 * 86400000)"
    by (simp add: perfect_M stale_when)
  with maturity_weighted_sum_and_penalty [of perfectRun] have 1: "maturity perfectRun = 5"
    by blast
  have s: "pr_state staleRun = ''open'' \<and> Date_now staleRun - createdAt staleRun = 30 * 86400000"
    by (simp add: stale_when)
  with maturity_weighted_sum_and_penalty [of staleRun]
  have "maturity staleRun = M1 staleRun * 0.25 + M2 staleRun * 0.15 + M3 staleRun * 0.35
      + M4 staleRun * 0.25 - 0.5"
    by blast
  then have 2: "maturity staleRun = 0.74"
    by (simp add: stale_M)
  from p 1 s 2 show ?thesis
    by (simp add: stale_when)
qed

subsection \<open>C5: complexity is 5 for a non-functional change, else the rounded weighted average\<close>

text \<open>
  Claim C5. For every run: if the functional-change flag is false, complexity is 5
  whatever the other metrics are; otherwise complexity is the weighted average of the
  commit-count, average-files, average-lines and lines-modified scores with the weights
  0.20, 0.25, 0.25 and 0.30 (the sum of score times weight over the sum of the weights),
  rounded to the nearest integer, a half going up, and clamped to the range from 1 to 5.
\<close>

theorem complexity_forced_or_rounded:
  "(\<not> isFunctional r \<longrightarrow> complexity r = 5) \<and>
   (isFunctional r \<longrightarrow>
      complexity r =
        min 5 (max 1 (real_of_int \<lfloor>(s_commitsCount r * 0.20 + s_avgFiles r * 0.25
              + s_avgLines r * 0.25 + s_linesModified r * 0.30)
            / (0.20 + 0.25 + 0.25 + 0.30) + 1 / 2\<rfloor>)))"
  by (simp add: complexity_def weightedAvg_def Math_round_def)

text \<open>
  The example with the worst signals has complexity 1 as a functional change and 5 once
  flagged non-functional; the example with the best signals has complexity 5.
\<close>

theorem complexity_forced_or_rounded_witness:
  "\<not> isFunctional (staleRun \<lparr> isFunctional := False \<rparr>) \<and>
   complexity (staleRun \<lparr> isFunctional := False \<rparr>) = 5 \<and>
   isFunctional staleRun \<and> complexity staleRun = 1 \<and>
   isFunctional perfectRun \<and> complexity perfectRun = 5"
proof -
  have n: "\<not> isFunctional (staleRun \<lparr> isFunctional := False \<rparr>)"
    by simp
  with complexity_forced_or_rounded [of "staleRun \<lparr> isFunctional := False \<rparr>"]
  have 1: "complexity (staleRun \<lparr> isFunctional := False \<rparr>) = 5"
    by blast
  have f: "isFunctional staleRun" "isFunctional perfectRun"
    by (simp_all add: staleRun_def perfectRun_def)
  from complexity_forced_or_rounded [of staleRun] f(1)
  have "complexity staleRun =
      min 5 (max 1 (real_of_int \<lfloor>(s_commitsCount staleRun * 0.20 + s_avgFiles staleRun * 0.25
            + s_avgLines staleRun * 0.25 + s_linesModified staleRun * 0.30)
          / (0.20 + 0.25 + 0.25 + 0.30) + 1 / 2\<rfloor>))"
    by blast
  then have 2: "complexity staleRun = 1"
    by (simp add: stale_scores)
  from complexity_forced_or_rounded [of perfectRun] f(2)
  have "complexity perfectRun =
      min 5 (max 1 (real_of_int \<lfloor>(s_commitsCount perfectRun * 0.20 + s_avgFiles perfectRun * 0.25
            + s_avgLines perfectRun * 0.25 + s_linesModified perfectRun * 0.30)
          / (0.20 + 0.25 + 0.25 + 0.30) + 1 / 2\<rfloor>))"
    by blast
  then have 3: "complexity perfectRun = 5"
    by (simp add: perfect_scores)
  from n 1 f 2 3 show ?thesis
    by blast
qed

subsection \<open>C6: the close-time tables\<close>

text \<open>
  Claim C6, as the script has it. The close-time table is chosen by whether the
  complexity is above 3 (the complex table) or not (the simple table). The complex
  table has five ranges, with the scores 1 to 5: score 1 from 32.0001 hours, 2 from
  20.0001 to 32, 3 from 8.0001 to 20, 4 from 4.0001 to 8, and 5 up to 4 hours. The
  simple table also singles out the very short windows: a value of at most 0.5 scores 1
  and a value from 0.5001 to 1 scores 2; close hours are whole minutes over 60, so for
  every run of complexity at most 3 close hours of at most 0.5 score 1 and close hours
  above 0.5 and at most 1 score 2.
\<close>

theorem closeTime_table_bands:
  "(c > 3 \<longrightarrow> thresholdsCloseTimeHours c = thresholdsCloseTimeHours 5) \<and>
   (c \<le> 3 \<longrightarrow> thresholdsCloseTimeHours c = thresholdsCloseTimeHours 1) \<and>
   map score (thresholdsCloseTimeHours 5) = [1, 2, 3, 4, 5] \<and>
   (c > 3 \<and> 32.0001 \<le> v \<longrightarrow> scoreByThresholds v (thresholdsCloseTimeHours c) = 1) \<and>
   (c > 3 \<and> 20.0001 \<le> v \<and> v \<le> 32 \<longrightarrow> scoreByThresholds v (thresholdsCloseTimeHours c) = 2) \<and>
   (c > 3 \<and> 8.0001 \<le> v \<and> v \<le> 20 \<longrightarrow> scoreByThresholds v (thresholdsCloseTimeHours c) = 3) \<and>
   (c > 3 \<and> 4.0001 \<le> v \<and> v \<le> 8 \<longrightarrow> scoreByThresholds v (thresholdsCloseTimeHours c) = 4) \<and>
   (c > 3 \<and> v \<le> 4 \<longrightarrow> scoreByThresholds v (thresholdsCloseTimeHours c) = 5) \<and>
   (c \<le> 3 \<and> v \<le> 0.5 \<longrightarrow> scoreByThresholds v (thresholdsCloseTimeHours c) = 1) \<and>
   (c \<le> 3 \<and> 0.5001 \<le> v \<and> v \<le> 1 \<longrightarrow> scoreByThresholds v (thresholdsCloseTimeHours c) = 2) \<and>
   (complexity r \<le> 3 \<and> closeHours r \<le> 0.5 \<longrightarrow> s_closeTime r = 1) \<and>
   (complexity r \<le> 3 \<and> 0.5 < closeHours r \<and> closeHours r \<le> 1 \<longrightarrow> s_closeTime r = 2)"
proof -
  have a: "c > 3 \<longrightarrow> thresholdsCloseTimeHours c = thresholdsCloseTimeHours 5"
    and b: "c \<le> 3 \<longrightarrow> thresholdsCloseTimeHours c = thresholdsCloseTimeHours 1"
    and m: "map score (thresholdsCloseTimeHours 5) = [1, 2, 3, 4, 5]"
    by (simp_all add: thresholdsCloseTimeHours_def)
  have d: "c > 3 \<and> 32.0001 \<le> v \<longrightarrow> scoreByThresholds v (thresholdsCloseTimeHours c) = 1"
    "c > 3 \<and> 20.0001 \<le> v \<and> v \<le> 32 \<longrightarrow> scoreByThresholds v (thresholdsCloseTimeHours c) = 2"
    "c > 3 \<and> 8.0001 \<le> v \<and> v \<le> 20 \<longrightarrow> scoreByThresholds v (thresholdsCloseTimeHours c) = 3"
    "c > 3 \<and> 4.0001 \<le> v \<and> v \<le> 8 \<longrightarrow> scoreByThresholds v (thresholdsCloseTimeHours c) = 4"
    "c > 3 \<and> v \<le> 4 \<longrightarrow> scoreByThresholds v (thresholdsCloseTimeHours c) = 5"
    by (simp_all add: thresholdsCloseTimeHours_def admits_def)
  have lo: "\<And>c v. c \<le> 3 \<and> v \<le> 0.5 \<longrightarrow> scoreByThresholds v (thresholdsCloseTimeHours c) = 1"
    by (simp add: thresholdsCloseTimeHours_def admits_def)
  have mid: "\<And>c v. c \<le> 3 \<and> 0.5001 \<le> v \<and> v \<le> 1 \<longrightarrow>
      scoreByThresholds v (thresholdsCloseTimeHours c) = 2"
    by (simp add: thresholdsCloseTimeHours_def admits_def)
  have p1: "complexity r \<le> 3 \<and> closeHours r \<le> 0.5 \<longrightarrow> s_closeTime r = 1"
    unfolding s_closeTime_def by (rule lo)
  have p2: "complexity r \<le> 3 \<and> 0.5 < closeHours r \<and> closeHours r \<le> 1 \<longrightarrow> s_closeTime r = 2"
    unfolding s_closeTime_def using mid [of "complexity r" "closeHours r"] closeHours_step [of r]
    by simp
  from a b m d lo [of c v] mid [of c v] p1 p2 show ?thesis
    by (intro conjI)
qed

text \<open>
  The example closed 20 minutes after it was opened has complexity 1, close hours of a
  third and close-time score 1; closed after 45 minutes it has close hours 0.75 and
  score 2. Under the complex table a quarter of an hour scores 5.
\<close>

theorem closeTime_table_bands_witness:
  "thresholdsCloseTimeHours 4 = thresholdsCloseTimeHours 5 \<and>
   thresholdsCloseTimeHours 2 = thresholdsCloseTimeHours 1 \<and>
   scoreByThresholds 6 (thresholdsCloseTimeHours 4) = 4 \<and>
   scoreByThresholds 0.25 (thresholdsCloseTimeHours 4) = 5 \<and>
   scoreByThresholds 0.25 (thresholdsCloseTimeHours 2) = 1 \<and>
   scoreByThresholds 0.75 (thresholdsCloseTimeHours 2) = 2 \<and>
   complexity (closedAfter 1200000) \<le> 3 \<and> closeHours (closedAfter 1200000) \<le> 0.5 \<and>
   s_closeTime (closedAfter 1200000) = 1 \<and>
   complexity (closedAfter 2700000) \<le> 3 \<and> 0.5 < closeHours (closedAfter 2700000) \<and>
   closeHours (closedAfter 2700000) \<le> 1 \<and> s_closeTime (closedAfter 2700000) = 2"
proof -
  have h1: "complexity (closedAfter 1200000) \<le> 3 \<and> closeHours (closedAfter 1200000) \<le> 0.5"
    by (simp add: closedAfter_complexity closeHours_def closedAfter_mins)
  have h2: "complexity (closedAfter 2700000) \<le> 3 \<and> 0.5 < closeHours (closedAfter 2700000) \<and>
      closeHours (closedAfter 2700000) \<le> 1"
    by (simp add: closedAfter_complexity closeHours_def closedAfter_mins)
  have a1: "(4::real) > 3 \<and> (4.0001::real) \<le> 6 \<and> (6::real) \<le> 8"
    and a2: "(4::real) > 3 \<and> (0.25::real) \<le> 4"
    and a3: "(2::real) \<le> 3 \<and> (0.25::real) \<le> 0.5"
    and a4: "(2::real) \<le> 3 \<and> (0.5001::real) \<le> 0.75 \<and> (0.75::real) \<le> 1"
    by simp_all
  have 1: "thresholdsCloseTimeHours 4 = thresholdsCloseTimeHours 5 \<and>
      scoreByThresholds 6 (thresholdsCloseTimeHours 4) = 4 \<and>
      s_closeTime (closedAfter 1200000) = 1"
    using closeTime_table_bands [of 4 6 "closedAfter 1200000"] h1 a1 by blast
  have 2: "scoreByThresholds 0.25 (thresholdsCloseTimeHours 4) = 5"
    using closeTime_table_bands [of 4 "0.25" "closedAfter 1200000"] a2 by blast
  have 3: "thresholdsCloseTimeHours 2 = thresholdsCloseTimeHours 1 \<and>
      scoreByThresholds 0.25 (thresholdsCloseTimeHours 2) = 1 \<and>
      s_closeTime (closedAfter 2700000) = 2"
    using closeTime_table_bands [of 2 "0.25" "closedAfter 2700000"] h2 a3 by blast
  have 4: "scoreByThresholds 0.75 (thresholdsCloseTimeHours 2) = 2"
    using closeTime_table_bands [of 2 "0.75" "closedAfter 2700000"] a4 by blast
  from h1 h2 1 2 3 4 show ?thesis
    by blast
qed

text \<open>
  The claim as it was stated gives the complex table 4 bands, and scores every value
  above 0.5 and up to 1 with 2 under the simple table. The complex table has 5 ranges,
  and 0.50005 is above 0.5, below the range that starts at 0.5001, and scores 5.
\<close>

theorem closeTime_complex_table_not_4_bands:
  "length (thresholdsCloseTimeHours 4) = 5 \<and>
   (0.5::real) < 0.50005 \<and> (0.50005::real) \<le> 1 \<and>
   scoreByThresholds 0.50005 (thresholdsCloseTimeHours 3) = 5"
  by (simp add: thresholdsCloseTimeHours_def admits_def)


subsection \<open>C7: the tables cover the values the script computes\<close>

text \<open>
  Claim C7, as the script has it. Some range of the commit-count table admits every
  commit count of at least 1. Some range of the table of average files per commit, and
  of the table of average lines per commit, standard or legacy, admits every quotient
  of a natural total by a count from 1 to 1000; so for every run that averages at most
  1000 commits (the averages are 0 when it averages none) both averages are admitted,
  and for every run with at least one commit the commit count is. The lines-modified,
  close-time and observations tables admit the value of every run. For these values
  \<open>scoreByThresholds\<close> returns the score of a range, not its default.
\<close>

theorem tables_exhaustive_on_domain:
  fixes n m d :: nat
  shows
  "(1 \<le> n \<longrightarrow> (\<exists>t\<in>set thresholdsCommitsCount. admits t (real n))) \<and>
   (1 \<le> d \<and> d \<le> 1000 \<longrightarrow>
      (\<exists>t\<in>set (thresholdsAvgFilesPerCommit legacy). admits t (real m / real d)) \<and>
      (\<exists>t\<in>set (thresholdsAvgLinesPerCommit legacy). admits t (real m / real d))) \<and>
   (1 \<le> totalCommits r \<longrightarrow>
      (\<exists>t\<in>set thresholdsCommitsCount. admits t (real (totalCommits r)))) \<and>
   (countForAverages r \<le> 1000 \<longrightarrow>
      (\<exists>t\<in>set (thresholdsAvgFilesPerCommit (isLegacy r)). admits t (avgFilesPerCommit r)) \<and>
      (\<exists>t\<in>set (thresholdsAvgLinesPerCommit (isLegacy r)). admits t (avgLinesPerCommit r))) \<and>
   (\<exists>t\<in>set (thresholdsLinesModified (isLegacy r)). admits t (linesModified r)) \<and>
   (\<exists>t\<in>set (thresholdsCloseTimeHours (complexity r)). admits t (closeHours r)) \<and>
   (\<exists>t\<in>set (thresholdsObservations (complexity r)). admits t (real (observations r)))"
proof (intro conjI impI)
  show "1 \<le> n \<Longrightarrow> \<exists>t\<in>set thresholdsCommitsCount. admits t (real n)"
    by (rule commits_covered)
  show "1 \<le> totalCommits r \<Longrightarrow> \<exists>t\<in>set thresholdsCommitsCount. admits t (real (totalCommits r))"
    by (rule commits_covered)
  show "1 \<le> d \<and> d \<le> 1000 \<Longrightarrow>
      \<exists>t\<in>set (thresholdsAvgFilesPerCommit legacy). admits t (real m / real d)"
    by (rule avgFiles_covered) simp_all
  show "1 \<le> d \<and> d \<le> 1000 \<Longrightarrow>
      \<exists>t\<in>set (thresholdsAvgLinesPerCommit legacy). admits t (real m / real d)"
    by (rule avgLines_covered) simp_all
  show "\<exists>t\<in>set (thresholdsAvgFilesPerCommit (isLegacy r)). admits t (avgFilesPerCommit r)"
    if "countForAverages r \<le> 1000"
  proof (cases "countForAverages r = 0")
    case True
    then have "avgFilesPerCommit r = real 0 / real 1"
      by (simp add: avgFilesPerCommit_def)
    then show ?thesis
      using avgFiles_covered [of 1 "isLegacy r" 0] by simp
  next
    case False
    with that show ?thesis
      unfolding avgFilesPerCommit_def by (simp add: avgFiles_covered)
  qed
  show "\<exists>t\<in>set (thresholdsAvgLinesPerCommit (isLegacy r)). admits t (avgLinesPerCommit r)"
    if "countForAverages r \<le> 1000"
  proof (cases "countForAverages r = 0")
    case True
    then have "avgLinesPerCommit r = real 0 / real 1"
      by (simp add: avgLinesPerCommit_def)
    then show ?thesis
      using avgLines_covered [of 1 "isLegacy r" 0] by simp
  next
    case False
    with that show ?thesis
      unfolding avgLinesPerCommit_def by (simp add: avgLines_covered)
  qed
  show "\<exists>t\<in>set (thresholdsLinesModified (isLegacy r)). admits t (linesModified r)"
    using linesModified_covered [of "isLegacy r" "pr_additions r + pr_deletions r"]
    by (simp add: linesModified_def)
  show "\<exists>t\<in>set (thresholdsCloseTimeHours (complexity r)). admits t (closeHours r)"
    unfolding closeHours_def by (rule closeTime_covered)
  show "\<exists>t\<in>set (thresholdsObservations (complexity r)). admits t (real (observations r))"
    by (rule observations_covered)
qed

text \<open>
  Five commits, and 79 files or lines over 2 commits, are admitted; so are the values of
  the merged example.
\<close>

theorem tables_exhaustive_on_domain_witness:
  "(1::nat) \<le> 5 \<and> (\<exists>t\<in>set thresholdsCommitsCount. admits t (real (5::nat))) \<and>
   (1::nat) \<le> 2 \<and> (2::nat) \<le> 1000 \<and>
   (\<exists>t\<in>set (thresholdsAvgFilesPerCommit False). admits t (real (79::nat) / real (2::nat))) \<and>
   (\<exists>t\<in>set (thresholdsAvgLinesPerCommit False). admits t (real (79::nat) / real (2::nat))) \<and>
   1 \<le> totalCommits perfectRun \<and>
   (\<exists>t\<in>set thresholdsCommitsCount. admits t (real (totalCommits perfectRun))) \<and>
   countForAverages perfectRun \<le> 1000 \<and>
   (\<exists>t\<in>set (thresholdsAvgFilesPerCommit (isLegacy perfectRun)). admits t (avgFilesPerCommit perfectRun)) \<and>
   (\<exists>t\<in>set (thresholdsAvgLinesPerCommit (isLegacy perfectRun)). admits t (avgLinesPerCommit perfectRun))"
proof -
  have h: "(1::nat) \<le> 5" "(1::nat) \<le> 2 \<and> (2::nat) \<le> 1000"
    "1 \<le> totalCommits perfectRun" "countForAverages perfectRun \<le> 1000"
    by (simp_all add: perfectRun_def)
  with tables_exhaustive_on_domain [where n = 5 and d = 2 and m = 79 and legacy = False and r = perfectRun]
  show ?thesis
    by blast
qed

text \<open>
  The claim as it was stated covers every non-negative commit count and every
  non-negative real average. No range of the commit-count table admits 0 commits, which
  get the default 1; and no range of the standard files table admits the average of
  79999 files over 2000 commits, 39.9995, which lies between the ranges that end at
  39.999 and start at 40.
\<close>

theorem tables_not_exhaustive_at_zero_and_gap:
  "\<not> (\<exists>t\<in>set thresholdsCommitsCount. admits t (real (0::nat))) \<and>
   scoreByThresholds (real (0::nat)) thresholdsCommitsCount = 1 \<and>
   0 \<le> real (79999::nat) / real (2000::nat) \<and>
   \<not> (\<exists>t\<in>set (thresholdsAvgFilesPerCommit False). admits t (real (79999::nat) / real (2000::nat)))"
  by (simp add: thresholdsCommitsCount_def thresholdsAvgFilesPerCommit_def admits_def)

subsection \<open>C9: the weighted average of no item and of one item\<close>

text \<open>
  Claim C9, as the script has it. \<open>weightedAvg\<close> of the empty list is 0. For a single
  item with a weight above 0 the result is the item's score in exact arithmetic,
  whatever the weight. In the binary64 arithmetic of the script the result is the
  rounded product of score and weight, divided by the weight and rounded again: it is
  the score for the weight 1, at each of the scores 1 to 5 (the single-item list of the
  script, that of M4, has weight 1), and the empty list gives 0.
\<close>

theorem weightedAvg_empty_and_single:
  "weightedAvg [] = 0 \<and>
   (0 < w \<longrightarrow> weightedAvg [\<lparr> item_score = s, weight = w \<rparr>] = s) \<and>
   b64_val (weightedAvg_b64 []) = 0 \<and>
   (n \<in> {1, 2, 3, 4, 5} \<longrightarrow>
      b64_val (weightedAvg_b64
        [\<lparr> item_score_b64 = b64_of_int n, weight_b64 = b64_literal 1 1 \<rparr>]) = real_of_int n)"
proof (intro conjI impI)
  show "weightedAvg [] = 0"
    by (simp add: weightedAvg_def)
  show "weightedAvg [\<lparr> item_score = s, weight = w \<rparr>] = s" if "0 < w"
    using that by (simp add: weightedAvg_def)
  show "b64_val (weightedAvg_b64 []) = 0"
    by (rule empty_b64)
  show "b64_val (weightedAvg_b64
        [\<lparr> item_score_b64 = b64_of_int n, weight_b64 = b64_literal 1 1 \<rparr>]) = real_of_int n"
    if "n \<in> {1, 2, 3, 4, 5}"
    using that unit_weight by auto
qed

text \<open>Score 3 with the exact weight 0.1 averages to 3; score 4 with the binary64 weight 1, to 4.\<close>

theorem weightedAvg_empty_and_single_witness:
  "(0::real) < 0.1 \<and> weightedAvg [\<lparr> item_score = 3, weight = 0.1 \<rparr>] = 3 \<and>
   (4::int) \<in> {1, 2, 3, 4, 5} \<and>
   b64_val (weightedAvg_b64
     [\<lparr> item_score_b64 = b64_of_int 4, weight_b64 = b64_literal 1 1 \<rparr>]) = 4"
proof -
  have h: "(0::real) < 0.1" "(4::int) \<in> {1, 2, 3, 4, 5}"
    by simp_all
  from weightedAvg_empty_and_single [of "0.1" 3 4] h
  have "weightedAvg [\<lparr> item_score = 3, weight = 0.1 \<rparr>] = 3 \<and>
      b64_val (weightedAvg_b64
        [\<lparr> item_score_b64 = b64_of_int 4, weight_b64 = b64_literal 1 1 \<rparr>]) = real_of_int 4"
    by blast
  with h show ?thesis
    by simp
qed

text \<open>
  The claim as it was stated holds for every weight. In binary64 the weight 0.1 is
  above 0, the product of 3 and 0.1 rounds to 0.30000000000000004, and its quotient by
  0.1 rounds to 3.0000000000000004, one unit in the last place above the score 3.
\<close>

theorem weightedAvg_single_item_not_exact_in_binary64:
  "0 < b64_val (b64_literal 1 10) \<and>
   b64_val (weightedAvg_b64 [\<lparr> item_score_b64 = b64_of_int 3, weight_b64 = b64_literal 1 10 \<rparr>])
     = 3 + 1 / 2 ^ 51 \<and>
   b64_val (weightedAvg_b64 [\<lparr> item_score_b64 = b64_of_int 3, weight_b64 = b64_literal 1 10 \<rparr>])
     \<noteq> b64_val (b64_of_int 3)"
proof -
  have w: "0 < b64_val (b64_literal 1 10)"
    by (simp only: tenth_b64) (simp add: b64_val_def)
  have s: "b64_val (b64_of_int 3) = 3"
    by (simp only: three_b64) (simp add: b64_val_def)
  have r: "b64_val (weightedAvg_b64 [\<lparr> item_score_b64 = b64_of_int 3, weight_b64 = b64_literal 1 10 \<rparr>])
      = 3 + 1 / 2 ^ 51"
    by (simp only: single_b64) (simp add: b64_val_def power_int_minus)
  from w s r show ?thesis
    by simp
qed

section \<open>Further properties\<close>

subsection \<open>The exact values of claim C2 in binary64\<close>

text \<open>
  With every score at 5 the four category lists average to exactly 5 in binary64 as
  well, and the maturity expression at 5, 5, 5, 5 is exactly 5 without the penalty and
  exactly 4.5 with it.
\<close>

lemma all_five_categories_binary64:
  "b64_val (weightedAvg_b64
     [\<lparr> item_score_b64 = b64_of_int 5, weight_b64 = b64_literal 30 100 \<rparr>,
      \<lparr> item_score_b64 = b64_of_int 5, weight_b64 = b64_literal 20 100 \<rparr>,
      \<lparr> item_score_b64 = b64_of_int 5, weight_b64 = b64_literal 20 100 \<rparr>,
      \<lparr> item_score_b64 = b64_of_int 5, weight_b64 = b64_literal 30 100 \<rparr>]) = 5"
  "b64_val (weightedAvg_b64
     [\<lparr> item_score_b64 = b64_of_int 5, weight_b64 = b64_literal 50 100 \<rparr>,
      \<lparr> item_score_b64 = b64_of_int 5, weight_b64 = b64_literal 20 100 \<rparr>,
      \<lparr> item_score_b64 = b64_of_int 5, weight_b64 = b64_literal 30 100 \<rparr>]) = 5"
  "b64_val (weightedAvg_b64
     [\<lparr> item_score_b64 = b64_of_int 5, weight_b64 = b64_literal 75 100 \<rparr>,
      \<lparr> item_score_b64 = b64_of_int 5, weight_b64 = b64_literal 25 100 \<rparr>]) = 5"
  by code_simp+

lemma all_five_maturity_binary64:
  "b64_val (maturity_b64 (b64_of_int 5) (b64_of_int 5) (b64_of_int 5) (b64_of_int 5)
     (b64_of_int 0)) = 5"
  "b64_val (maturity_b64 (b64_of_int 5) (b64_of_int 5) (b64_of_int 5) (b64_of_int 5)
     (b64_literal 5 10)) = 4.5"
  by code_simp+

subsection \<open>Complexity is an integer from 1 to 5\<close>

lemma complexity_in_1_to_5: "complexity r \<in> {1, 2, 3, 4, 5}"
proof (cases "isFunctional r")
  case False
  then show ?thesis by (simp add: complexity_def)
next
  case True
  define k where "k = Math_round (weightedAvg
               [\<lparr> item_score = s_commitsCount r, weight = 0.20 \<rparr>,
                \<lparr> item_score = s_avgFiles r, weight = 0.25 \<rparr>,
                \<lparr> item_score = s_avgLines r, weight = 0.25 \<rparr>,
                \<lparr> item_score = s_linesModified r, weight = 0.30 \<rparr>])"
  have c: "complexity r = min 5 (max 1 (real_of_int k))"
    using True by (simp add: complexity_def k_def)
  consider "k \<le> 1" | "k = 2" | "k = 3" | "k = 4" | "5 \<le> k"
    by linarith
  then show ?thesis
    unfolding c by cases (simp_all add: min_def max_def)
qed

subsection \<open>Business minutes are never negative\<close>

text \<open>A span whose end is not after its start has no business minutes.\<close>

lemma businessMinutes_nonnegative:
  "0 \<le> businessMinutesBetween c s e \<and> (e \<le> s \<longrightarrow> businessMinutesBetween c s e = 0)"
proof -
  have "0 \<le> (\<Sum>k = 0..<sliceCount s e.
              sliceOverlap c (effectiveWorkStart c s) (sliceStart s k) (sliceEnd s e k))"
    by (rule sum_nonneg) (simp add: sliceOverlap_def)
  moreover have "s < e \<Longrightarrow> 0 \<le> (e - s + 30000) div 60000"
    by simp
  ultimately show ?thesis
    by (simp add: businessMinutesBetween_cases)
qed

subsection \<open>The effective work start is fixed by the start read to the minute\<close>

text \<open>
  Under the clock whose cutoff is 10:00, a start on Monday 1 January 2024 at 18:00:30
  local time is after the work end, seconds included, and would raise the effective
  work start to the cutoff minute 600; the script reads it as minute 1080, inside the
  work window, and keeps the work-start minute 540.
\<close>

lemma effective_start_read_to_the_minute:
  "effectiveWorkStartToTheSecond lateCutoffClock 1704146430000 = 600 \<and>
   effectiveWorkStart lateCutoffClock 1704146430000 = 540"
  by (simp add: effectiveWorkStartToTheSecond_def effectiveWorkStart_def window_second_eval
      window_eval late_minutes zone_eval)

end
